theory Spec2Isabelle
  imports Main "HOL-Library.AList"
begin

section \<open>Values crossing the boundary\<close>

text \<open>
  JavaScript values as far as the builder looks at them: route parameters, the query
  object, the parsed payload, handler results and validation issues are all opaque data.
  \<open>JUndefined\<close> is JavaScript's \<open>undefined\<close>.
\<close>

datatype jsval =
    JUndefined
  | JNull
  | JBool bool
  | JNum int
  | JStr string
  | JArr "jsval list"
  | JObj "(string \<times> jsval) list"

type_synonym ZodIssue = jsval

section \<open>api-error.ts\<close>

text \<open>
  \<^verbatim>\<open>class ApiError extends Error\<close> with its four public fields. The constructor takes
  \<^verbatim>\<open>ApiErrorProps\<close>, whose \<^verbatim>\<open>code\<close>, \<^verbatim>\<open>type\<close> and \<^verbatim>\<open>issues\<close> are optional
  (\<^verbatim>\<open>props.code ?? 500\<close>, \<^verbatim>\<open>props.type ?? "INTERNAL_SERVER_ERROR"\<close>).
\<close>

record ApiError =
  message :: string
  code :: int
  type :: string
  issues :: "ZodIssue list option"

definition new_ApiError ::
  "int option \<Rightarrow> string option \<Rightarrow> string \<Rightarrow> ZodIssue list option \<Rightarrow> ApiError" where
  "new_ApiError props_code props_type props_message props_issues =
     \<lparr>message = props_message,
      code = (case props_code of None \<Rightarrow> 500 | Some c \<Rightarrow> c),
      type = (case props_type of None \<Rightarrow> ''INTERNAL_SERVER_ERROR'' | Some t \<Rightarrow> t),
      issues = props_issues\<rparr>"

text \<open>
  Anything can be thrown in JavaScript. A thrown value is either not an object
  (\<^verbatim>\<open>typeof error !== "object"\<close>, or \<^verbatim>\<open>null\<close>), or an object with its own properties
  (among them possibly \<^verbatim>\<open>digest\<close>) which may in addition be an instance of
  \<^verbatim>\<open>ApiError\<close>; \<open>props\<close> lists the properties other than the four fields of the class.
\<close>

datatype thrown =
    ThrownPrimitive jsval
  | ThrownObject "(string \<times> jsval) list" "ApiError option"

text \<open>\<^verbatim>\<open>error instanceof ApiError\<close>, giving the instance.\<close>

fun instanceofApiError :: "thrown \<Rightarrow> ApiError option" where
  "instanceofApiError (ThrownPrimitive v) = None"
| "instanceofApiError (ThrownObject ps c) = c"

section \<open>api-builder.ts: types\<close>

text \<open>
  A schema is used only through \<^verbatim>\<open>await schema.safeParseAsync(data)\<close>, which resolves to
  \<^verbatim>\<open>{success: true, data}\<close> or \<^verbatim>\<open>{success: false, error: {issues}}\<close>; a schema built from
  user callbacks (\<^verbatim>\<open>ZodPipe\<close>, \<^verbatim>\<open>ZodTransform\<close>) rejects with whatever the callback
  raises (\<open>Inl\<close>).
\<close>

datatype SafeParseResult = Success jsval | Failure "ZodIssue list"

type_synonym ZodSchema = "jsval \<Rightarrow> thrown + SafeParseResult"

text \<open>
  Of the request the builder reads \<^verbatim>\<open>req.nextUrl.searchParams.entries()\<close> and
  \<^verbatim>\<open>await req.json()\<close> (\<open>Inl\<close>: the payload cannot be parsed); of the route context
  \<^verbatim>\<open>await routeCtx.params\<close>.
\<close>

record NextRequest =
  searchParams :: "(string \<times> string) list"
  json :: "thrown + jsval"

record RouteCtx =
  params :: "thrown + jsval"

text \<open>
  \<^verbatim>\<open>NextResponse.json(value, {status})\<close> is the framework's constructor (it calls
  \<^verbatim>\<open>Response.json\<close>). It throws a \<^verbatim>\<open>TypeError\<close> when the value has no JSON text
  (\<^verbatim>\<open>JSON.stringify\<close> gives \<^verbatim>\<open>undefined\<close>), a \<^verbatim>\<open>RangeError\<close> when the status is outside
  200 to 599, and a \<^verbatim>\<open>TypeError\<close> when the status is one that admits no body; otherwise it
  builds the response with that status and the value as JSON body. \<open>json_body\<close> is the value
  handed over; its JSON text leaves out a property whose value is \<^verbatim>\<open>undefined\<close>.
\<close>

record NextResponse =
  status :: int
  json_body :: jsval

definition js_error :: "string \<Rightarrow> thrown" where
  "js_error name = ThrownObject [(''name'', JStr name)] None"

definition NextResponse_json :: "jsval \<Rightarrow> int \<Rightarrow> thrown + NextResponse" where
  "NextResponse_json v s =
     (if v = JUndefined then Inl (js_error ''TypeError'')
      else if s < 200 \<or> 599 < s then Inl (js_error ''RangeError'')
      else if s \<in> set [204, 205, 304] then Inl (js_error ''TypeError'')
      else Inr \<lparr>status = s, json_body = v\<rparr>)"

text \<open>\<^verbatim>\<open>inputBase\<close> (lines 268--273) and \<^verbatim>\<open>HandlerInput\<close>, which adds \<^verbatim>\<open>ctx\<close>.\<close>

type_synonym Ctx = "string \<rightharpoonup> jsval"

record InputBase =
  inp_context :: jsval
  inp_query :: jsval
  inp_body :: jsval
  inp_req :: NextRequest

record HandlerInput = InputBase +
  inp_ctx :: Ctx

definition with_ctx :: "InputBase \<Rightarrow> Ctx \<Rightarrow> HandlerInput" where
  "with_ctx inputBase c =
     \<lparr>inp_context = inp_context inputBase, inp_query = inp_query inputBase,
      inp_body = inp_body inputBase, inp_req = inp_req inputBase, inp_ctx = c\<rparr>"

text \<open>
  A handler resolves to a \<^verbatim>\<open>NextResponse\<close> (\<^verbatim>\<open>result instanceof NextResponse\<close>) or to
  any other value, or raises. A middleware resolves to a partial context (the own enumerable
  properties of the value it returns, as the spread reads them) or raises. It is
  handed the accumulator object itself as \<^verbatim>\<open>ctx\<close> and may write to it: besides its outcome
  it gives the properties of that object as they are when it has finished. The other
  fields of the input stand for the objects passed on; the pipeline does not read them again.
\<close>

datatype HandlerResult = IsNextResponse NextResponse | PlainValue jsval

type_synonym Middleware = "HandlerInput \<Rightarrow> (thrown + Ctx) \<times> Ctx"

type_synonym Handler = "HandlerInput \<Rightarrow> thrown + HandlerResult"

type_synonym FailureHandler = "NextRequest \<Rightarrow> thrown \<Rightarrow> thrown + unit"

datatype http_method = GET | POST | PUT | PATCH | DELETE

text \<open>
  The fields of \<^verbatim>\<open>class ApiBuilder\<close>. The middleware array is an object of its own: a
  builder on the heap holds a reference to it (\<open>'m\<close> is an address), the running
  pipeline reads its elements (\<open>'m\<close> is the list).
\<close>

record 'm ApiBuilder =
  contextSchema :: "ZodSchema option"
  querySchema :: "ZodSchema option"
  bodySchema :: "ZodSchema option"
  middlewares :: 'm
  failureHandler :: "FailureHandler option"

text \<open>
  What a run does besides returning: the calls it makes to user code and what it writes
  with \<^verbatim>\<open>console.error\<close>, in order. A middleware call is tagged with its position in
  the array.
\<close>

datatype event =
    MiddlewareCall nat HandlerInput
  | HandlerCall HandlerInput
  | FailureHandlerCall NextRequest thrown
  | ConsoleError string thrown

section \<open>api-builder.ts: the request pipeline\<close>

definition startsWith :: "string \<Rightarrow> string \<Rightarrow> bool" where
  "startsWith s p = (take (length p) s = p)"

fun isNextJsInternalError :: "thrown \<Rightarrow> bool" where
  "isNextJsInternalError (ThrownPrimitive v) = False"
| "isNextJsInternalError (ThrownObject ps c) =
     (case map_of ps ''digest'' of
        None \<Rightarrow> False
      | Some (JStr digest) \<Rightarrow> startsWith digest ''NEXT_''
      | Some _ \<Rightarrow> False)"

text \<open>\<^verbatim>\<open>throw new ApiError({...})\<close>: a fresh instance, with no property besides its fields.\<close>

definition throw_ApiError :: "ApiError \<Rightarrow> thrown" where
  "throw_ApiError e = ThrownObject [] (Some e)"

text \<open>\<^verbatim>\<open>private async validate(schema, data)\<close>, lines 331--345.\<close>

definition validate :: "ZodSchema option \<Rightarrow> jsval \<Rightarrow> thrown + jsval" where
  "validate schema data =
     (case schema of
        None \<Rightarrow> Inr (if data = JUndefined then JUndefined else data)
      | Some s \<Rightarrow>
          (case s data of
             Inl e \<Rightarrow> Inl e
           | Inr (Failure result_error_issues) \<Rightarrow>
               Inl (throw_ApiError (new_ApiError (Some 400) (Some ''VALIDATION_ERROR'')
                      ''Invalid input.'' (Some result_error_issues)))
           | Inr (Success result_data) \<Rightarrow> Inr result_data))"

text \<open>
  \<^verbatim>\<open>Object.fromEntries(req.nextUrl.searchParams.entries())\<close>: a later entry with the same
  name overwrites the value of the earlier one. The list gives the properties of the object,
  the names in the order of their first entry; JavaScript enumerates integer-like names
  before the others, an order that nothing here depends on.
\<close>

definition fromEntries :: "(string \<times> string) list \<Rightarrow> jsval" where
  "fromEntries entries =
     JObj (foldl (\<lambda>ob (k, v). AList.update k (JStr v) ob) [] entries)"

text \<open>
  Lines 252--266: the body step. The inner \<^verbatim>\<open>try\<close> holds both \<^verbatim>\<open>req.json()\<close> and the call
  of \<^verbatim>\<open>validate\<close>; its \<^verbatim>\<open>catch\<close> does not look at what was raised.
\<close>

definition validateBody :: "ZodSchema option \<Rightarrow> http_method \<Rightarrow> NextRequest \<Rightarrow> thrown + jsval" where
  "validateBody schema m req =
     (if m \<in> set [POST, PUT, PATCH] then
        (case (case json req of Inl e \<Rightarrow> Inl e | Inr j \<Rightarrow> validate schema j) of
           Inr validatedBody \<Rightarrow> Inr validatedBody
         | Inl e \<Rightarrow>
             (if schema \<noteq> None
              then Inl (throw_ApiError (new_ApiError (Some 400) (Some ''INVALID_BODY'')
                          ''Invalid JSON body provided.'' None))
              else Inr JUndefined))
      else Inr JUndefined)"

text \<open>Lines 242--273: the three validations, in order, ending in \<^verbatim>\<open>inputBase\<close>.\<close>

definition validateInput ::
  "'m ApiBuilder \<Rightarrow> http_method \<Rightarrow> NextRequest \<Rightarrow> RouteCtx \<Rightarrow> thrown + InputBase" where
  "validateInput this m req routeCtx =
     (case params routeCtx of
        Inl e \<Rightarrow> Inl e
      | Inr p \<Rightarrow>
     (case validate (contextSchema this) p of
        Inl e \<Rightarrow> Inl e
      | Inr validatedContext \<Rightarrow>
     (case validate (querySchema this) (fromEntries (searchParams req)) of
        Inl e \<Rightarrow> Inl e
      | Inr validatedQuery \<Rightarrow>
     (case validateBody (bodySchema this) m req of
        Inl e \<Rightarrow> Inl e
      | Inr validatedBody \<Rightarrow>
          Inr \<lparr>inp_context = validatedContext, inp_query = validatedQuery,
               inp_body = validatedBody, inp_req = req\<rparr>))))"

text \<open>
  Lines 276--280: the loop over \<^verbatim>\<open>this.middlewares\<close>; \<open>i\<close> counts the steps already
  taken, \<open>cumulativeCtx\<close> is the accumulator. The step is called with the accumulator object
  as \<^verbatim>\<open>ctx\<close>; \<^verbatim>\<open>{...cumulativeCtx, ...newCtx}\<close> then reads that object as the step has left
  it (\<open>written\<close>) and is \<open>++\<close>.
\<close>

fun runMiddlewares ::
  "Middleware list \<Rightarrow> InputBase \<Rightarrow> nat \<Rightarrow> Ctx \<Rightarrow> (thrown + Ctx) \<times> event list" where
  "runMiddlewares [] inputBase i cumulativeCtx = (Inr cumulativeCtx, [])"
| "runMiddlewares (middleware # rest) inputBase i cumulativeCtx =
     (case middleware (with_ctx inputBase cumulativeCtx) of
        (Inl e, written) \<Rightarrow> (Inl e, [MiddlewareCall i (with_ctx inputBase cumulativeCtx)])
      | (Inr newCtx, written) \<Rightarrow>
          (case runMiddlewares rest inputBase (Suc i) (written ++ newCtx) of
             (r, evs) \<Rightarrow> (r, MiddlewareCall i (with_ctx inputBase cumulativeCtx) # evs)))"

text \<open>
  Lines 283--292: the handler and the success response. \<^verbatim>\<open>NextResponse.json\<close> is called
  inside the outer \<^verbatim>\<open>try\<close>: what it throws is raised by the pipeline.
\<close>

definition runHandler ::
  "http_method \<Rightarrow> Handler \<Rightarrow> HandlerInput \<Rightarrow> (thrown + NextResponse) \<times> event list" where
  "runHandler m handler inp =
     (case handler inp of
        Inl e \<Rightarrow> (Inl e, [HandlerCall inp])
      | Inr (IsNextResponse result) \<Rightarrow> (Inr result, [HandlerCall inp])
      | Inr (PlainValue result) \<Rightarrow>
          (NextResponse_json result (if m = POST then 201 else 200), [HandlerCall inp]))"

text \<open>Lines 241--292: the body of the outer \<^verbatim>\<open>try\<close>.\<close>

definition pipeline ::
  "Middleware list ApiBuilder \<Rightarrow> http_method \<Rightarrow> Handler \<Rightarrow> NextRequest \<Rightarrow> RouteCtx
     \<Rightarrow> (thrown + NextResponse) \<times> event list" where
  "pipeline this m handler req routeCtx =
     (case validateInput this m req routeCtx of
        Inl e \<Rightarrow> (Inl e, [])
      | Inr inputBase \<Rightarrow>
          (case runMiddlewares (middlewares this) inputBase 0 Map.empty of
             (Inl e, evs) \<Rightarrow> (Inl e, evs)
           | (Inr cumulativeCtx, evs) \<Rightarrow>
               (case runHandler m handler (with_ctx inputBase cumulativeCtx) of
                  (r, evs') \<Rightarrow> (r, evs @ evs'))))"

text \<open>
  Lines 293--324: the outer \<^verbatim>\<open>catch\<close>. \<open>Inl\<close> is an error leaving the route handler:
  \<^verbatim>\<open>throw error\<close>, or what \<^verbatim>\<open>NextResponse.json\<close> throws in the handler of the \<^verbatim>\<open>catch\<close>.
\<close>

definition issues_json :: "ZodIssue list option \<Rightarrow> jsval" where
  "issues_json i = (case i of None \<Rightarrow> JUndefined | Some xs \<Rightarrow> JArr xs)"

definition error_body :: "ApiError \<Rightarrow> jsval" where
  "error_body error =
     JObj [(''message'', JStr (message error)), (''type'', JStr (type error)),
           (''issues'', issues_json (issues error))]"

definition internal_error_response :: "thrown + NextResponse" where
  "internal_error_response =
     NextResponse_json
       (JObj [(''message'', JStr ''An internal server error occurred.''),
              (''type'', JStr ''INTERNAL_SERVER_ERROR'')])
       500"

definition runFailureHandler ::
  "FailureHandler option \<Rightarrow> NextRequest \<Rightarrow> thrown \<Rightarrow> event list" where
  "runFailureHandler fh req error =
     (case fh of
        None \<Rightarrow> []
      | Some f \<Rightarrow>
          (case f req error of
             Inr u \<Rightarrow> [FailureHandlerCall req error]
           | Inl loggingError \<Rightarrow>
               [FailureHandlerCall req error,
                ConsoleError ''Error within .failed() handler:'' loggingError]))"

definition onError ::
  "FailureHandler option \<Rightarrow> NextRequest \<Rightarrow> thrown \<Rightarrow> (thrown + NextResponse) \<times> event list" where
  "onError fh req error =
     (if isNextJsInternalError error then (Inl error, [])
      else
        (case instanceofApiError error of
           Some apiError \<Rightarrow>
             (NextResponse_json (error_body apiError) (code apiError), [])
         | None \<Rightarrow>
             (internal_error_response,
              runFailureHandler fh req error @ [ConsoleError ''Unhandled API error:'' error])))"

text \<open>Lines 237--325: the route handler that \<^verbatim>\<open>createRouteHandler\<close> returns.\<close>

definition routeHandler ::
  "Middleware list ApiBuilder \<Rightarrow> http_method \<Rightarrow> Handler \<Rightarrow> NextRequest \<Rightarrow> RouteCtx
     \<Rightarrow> (thrown + NextResponse) \<times> event list" where
  "routeHandler this m handler req routeCtx =
     (case pipeline this m handler req routeCtx of
        (Inr response, evs) \<Rightarrow> (Inr response, evs)
      | (Inl error, evs) \<Rightarrow>
          (case onError (failureHandler this) req error of
             (r, evs') \<Rightarrow> (r, evs @ evs')))"

section \<open>api-builder.ts: the builder\<close>

text \<open>
  Builders and middleware arrays are JavaScript objects: they live on a heap and are
  handled through their addresses. \<^verbatim>\<open>new\<close> and an array literal allocate the next free
  address; nothing in the class assigns to a field after the constructor has run.
\<close>

type_synonym addr = nat

datatype obj = BuilderObj "addr ApiBuilder" | ArrayObj "Middleware list"

type_synonym heap = "obj list"

definition lookup :: "heap \<Rightarrow> addr \<Rightarrow> obj option" where
  "lookup h a = (if a < length h then Some (h ! a) else None)"

definition alloc :: "obj \<Rightarrow> heap \<Rightarrow> addr \<times> heap" where
  "alloc ob h = (length h, h @ [ob])"

text \<open>\<^verbatim>\<open>new ApiBuilder(config)\<close>, lines 97--109: the five fields are copied from \<^verbatim>\<open>config\<close>.\<close>

definition new_ApiBuilder :: "addr ApiBuilder \<Rightarrow> heap \<Rightarrow> addr \<times> heap" where
  "new_ApiBuilder config h =
     alloc (BuilderObj \<lparr>contextSchema = contextSchema config, querySchema = querySchema config,
                        bodySchema = bodySchema config, middlewares = middlewares config,
                        failureHandler = failureHandler config\<rparr>) h"

text \<open>
  Lines 114--166. \<^verbatim>\<open>{ ...this, contextSchema: schema }\<close> copies the fields of \<^verbatim>\<open>this\<close>
  (the reference to the middleware array among them) and replaces one.
  \<^verbatim>\<open>[...this.middlewares, middleware]\<close> is a new array. \<open>None\<close>: \<^verbatim>\<open>this\<close> is not a builder.
\<close>

definition ApiBuilder_context :: "addr \<Rightarrow> ZodSchema \<Rightarrow> heap \<Rightarrow> (addr \<times> heap) option" where
  "ApiBuilder_context this schema h =
     (case lookup h this of
        Some (BuilderObj b) \<Rightarrow> Some (new_ApiBuilder (b\<lparr>contextSchema := Some schema\<rparr>) h)
      | _ \<Rightarrow> None)"

definition ApiBuilder_query :: "addr \<Rightarrow> ZodSchema \<Rightarrow> heap \<Rightarrow> (addr \<times> heap) option" where
  "ApiBuilder_query this schema h =
     (case lookup h this of
        Some (BuilderObj b) \<Rightarrow> Some (new_ApiBuilder (b\<lparr>querySchema := Some schema\<rparr>) h)
      | _ \<Rightarrow> None)"

definition ApiBuilder_body :: "addr \<Rightarrow> ZodSchema \<Rightarrow> heap \<Rightarrow> (addr \<times> heap) option" where
  "ApiBuilder_body this schema h =
     (case lookup h this of
        Some (BuilderObj b) \<Rightarrow> Some (new_ApiBuilder (b\<lparr>bodySchema := Some schema\<rparr>) h)
      | _ \<Rightarrow> None)"

definition ApiBuilder_use :: "addr \<Rightarrow> Middleware \<Rightarrow> heap \<Rightarrow> (addr \<times> heap) option" where
  "ApiBuilder_use this middleware h =
     (case lookup h this of
        Some (BuilderObj b) \<Rightarrow>
          (case lookup h (middlewares b) of
             Some (ArrayObj ms) \<Rightarrow>
               (case alloc (ArrayObj (ms @ [middleware])) h of
                  (arr, h1) \<Rightarrow> Some (new_ApiBuilder (b\<lparr>middlewares := arr\<rparr>) h1))
           | _ \<Rightarrow> None)
      | _ \<Rightarrow> None)"

definition ApiBuilder_failed :: "addr \<Rightarrow> FailureHandler \<Rightarrow> heap \<Rightarrow> (addr \<times> heap) option" where
  "ApiBuilder_failed this handler h =
     (case lookup h this of
        Some (BuilderObj b) \<Rightarrow> Some (new_ApiBuilder (b\<lparr>failureHandler := Some handler\<rparr>) h)
      | _ \<Rightarrow> None)"

text \<open>Lines 351--359.\<close>

definition createApiHandler :: "heap \<Rightarrow> addr \<times> heap" where
  "createApiHandler h =
     (case alloc (ArrayObj []) h of
        (arr, h1) \<Rightarrow>
          new_ApiBuilder \<lparr>contextSchema = None, querySchema = None, bodySchema = None,
                          middlewares = arr, failureHandler = None\<rparr> h1)"

text \<open>
  The route handler is a closure over \<^verbatim>\<open>this\<close>: it reads \<^verbatim>\<open>this.contextSchema\<close>,
  \<^verbatim>\<open>this.middlewares\<close> and the other fields when a request arrives, from the heap as
  it is then.
\<close>

definition this_fields :: "heap \<Rightarrow> addr \<Rightarrow> Middleware list ApiBuilder option" where
  "this_fields h this =
     (case lookup h this of
        Some (BuilderObj b) \<Rightarrow>
          (case lookup h (middlewares b) of
             Some (ArrayObj ms) \<Rightarrow>
               Some \<lparr>contextSchema = contextSchema b, querySchema = querySchema b,
                     bodySchema = bodySchema b, middlewares = ms,
                     failureHandler = failureHandler b\<rparr>
           | _ \<Rightarrow> None)
      | _ \<Rightarrow> None)"

definition createRouteHandler ::
  "addr \<Rightarrow> http_method \<Rightarrow> Handler \<Rightarrow> heap \<Rightarrow> NextRequest \<Rightarrow> RouteCtx
     \<Rightarrow> ((thrown + NextResponse) \<times> event list) option" where
  "createRouteHandler this m handler h req routeCtx =
     map_option (\<lambda>b. routeHandler b m handler req routeCtx) (this_fields h this)"

text \<open>Lines 173--223: \<^verbatim>\<open>get\<close>, \<^verbatim>\<open>post\<close>, \<^verbatim>\<open>put\<close>, \<^verbatim>\<open>patch\<close> and \<^verbatim>\<open>delete\<close>.\<close>

definition ApiBuilder_get ::
  "addr \<Rightarrow> Handler \<Rightarrow> heap \<Rightarrow> NextRequest \<Rightarrow> RouteCtx
     \<Rightarrow> ((thrown + NextResponse) \<times> event list) option" where
  "ApiBuilder_get this handler = createRouteHandler this GET handler"

definition ApiBuilder_post ::
  "addr \<Rightarrow> Handler \<Rightarrow> heap \<Rightarrow> NextRequest \<Rightarrow> RouteCtx
     \<Rightarrow> ((thrown + NextResponse) \<times> event list) option" where
  "ApiBuilder_post this handler = createRouteHandler this POST handler"

definition ApiBuilder_put ::
  "addr \<Rightarrow> Handler \<Rightarrow> heap \<Rightarrow> NextRequest \<Rightarrow> RouteCtx
     \<Rightarrow> ((thrown + NextResponse) \<times> event list) option" where
  "ApiBuilder_put this handler = createRouteHandler this PUT handler"

definition ApiBuilder_patch ::
  "addr \<Rightarrow> Handler \<Rightarrow> heap \<Rightarrow> NextRequest \<Rightarrow> RouteCtx
     \<Rightarrow> ((thrown + NextResponse) \<times> event list) option" where
  "ApiBuilder_patch this handler = createRouteHandler this PATCH handler"

definition ApiBuilder_delete ::
  "addr \<Rightarrow> Handler \<Rightarrow> heap \<Rightarrow> NextRequest \<Rightarrow> RouteCtx
     \<Rightarrow> ((thrown + NextResponse) \<times> event list) option" where
  "ApiBuilder_delete this handler = createRouteHandler this DELETE handler"

text \<open>
  The five configuration calls, and the change each is to make to the configuration
  (the middleware list being the content of the array).
\<close>

datatype configuration_call =
    Context ZodSchema
  | Query ZodSchema
  | Body ZodSchema
  | Use Middleware
  | Failed FailureHandler

fun configure :: "configuration_call \<Rightarrow> addr \<Rightarrow> heap \<Rightarrow> (addr \<times> heap) option" where
  "configure (Context schema) this h = ApiBuilder_context this schema h"
| "configure (Query schema) this h = ApiBuilder_query this schema h"
| "configure (Body schema) this h = ApiBuilder_body this schema h"
| "configure (Use middleware) this h = ApiBuilder_use this middleware h"
| "configure (Failed handler) this h = ApiBuilder_failed this handler h"

fun one_field_changed ::
  "configuration_call \<Rightarrow> Middleware list ApiBuilder \<Rightarrow> Middleware list ApiBuilder" where
  "one_field_changed (Context schema) b = b\<lparr>contextSchema := Some schema\<rparr>"
| "one_field_changed (Query schema) b = b\<lparr>querySchema := Some schema\<rparr>"
| "one_field_changed (Body schema) b = b\<lparr>bodySchema := Some schema\<rparr>"
| "one_field_changed (Use middleware) b = b\<lparr>middlewares := middlewares b @ [middleware]\<rparr>"
| "one_field_changed (Failed handler) b = b\<lparr>failureHandler := Some handler\<rparr>"

section \<open>Notions used to state the properties\<close>

text \<open>The left-to-right shallow merge of a list of partial contexts, later keys winning.\<close>

definition merge_outputs :: "Ctx list \<Rightarrow> Ctx" where
  "merge_outputs outs = foldl (++) Map.empty outs"

text \<open>The calls of the failure hook in a run, in order.\<close>

fun failureHandlerCalls :: "event list \<Rightarrow> (NextRequest \<times> thrown) list" where
  "failureHandlerCalls [] = []"
| "failureHandlerCalls (FailureHandlerCall req e # evs) = (req, e) # failureHandlerCalls evs"
| "failureHandlerCalls (ev # evs) = failureHandlerCalls evs"

section \<open>Concrete requests, schemas, middleware and handlers\<close>

definition example_req :: NextRequest where
  "example_req =
     \<lparr>searchParams = [(''include'', ''true'')],
      json = Inr (JObj [(''title'', JStr ''hello'')])\<rparr>"

definition unparsable_req :: NextRequest where
  "unparsable_req =
     \<lparr>searchParams = [(''include'', ''true'')],
      json = Inl (ThrownObject [(''name'', JStr ''SyntaxError'')] None)\<rparr>"

definition example_routeCtx :: RouteCtx where
  "example_routeCtx = \<lparr>params = Inr (JObj [(''id'', JStr ''7'')])\<rparr>"

definition example_base :: "jsval \<Rightarrow> NextRequest \<Rightarrow> InputBase" where
  "example_base b req =
     \<lparr>inp_context = JObj [(''id'', JStr ''7'')],
      inp_query = JObj [(''include'', JStr ''true'')],
      inp_body = b, inp_req = req\<rparr>"

definition builder_with :: "Middleware list \<Rightarrow> Middleware list ApiBuilder" where
  "builder_with ms =
     \<lparr>contextSchema = None, querySchema = None, bodySchema = None,
      middlewares = ms, failureHandler = None\<rparr>"

definition required_issue :: ZodIssue where
  "required_issue =
     JObj [(''code'', JStr ''invalid_type''), (''path'', JArr [JStr ''title'']),
           (''message'', JStr ''Required'')]"

definition accepting_schema :: ZodSchema where
  "accepting_schema d = Inr (Success d)"

definition rejecting_schema :: ZodSchema where
  "rejecting_schema d = Inr (Failure [required_issue])"

definition not_found_signal :: thrown where
  "not_found_signal = ThrownObject [(''digest'', JStr ''NEXT_NOT_FOUND'')] None"

definition schema_calling_notFound :: ZodSchema where
  "schema_calling_notFound d = Inl not_found_signal"

definition unauthorized :: ApiError where
  "unauthorized = new_ApiError (Some 401) (Some ''UNAUTHORIZED'') ''Not authenticated.'' None"

definition marked_unauthorized :: thrown where
  "marked_unauthorized = ThrownObject [(''digest'', JStr ''NEXT_REDIRECT;/login'')] (Some unauthorized)"

definition database_down :: thrown where
  "database_down = ThrownObject [(''message'', JStr ''connect ECONNREFUSED 10.0.0.5:5432'')] None"

definition mw_user :: Middleware where
  "mw_user inp = (Inr [''user'' \<mapsto> JStr ''ann'', ''role'' \<mapsto> JStr ''guest''], inp_ctx inp)"

definition mw_role :: Middleware where
  "mw_role inp =
     (if inp_ctx inp ''user'' = Some (JStr ''ann'') then Inr [''role'' \<mapsto> JStr ''admin'']
      else Inl (ThrownPrimitive (JStr ''no user'')),
      inp_ctx inp)"

definition mw_deny :: Middleware where
  "mw_deny inp = (Inl (throw_ApiError unauthorized), inp_ctx inp)"

definition no_ctx :: Ctx where
  "no_ctx = Map.empty"

definition mw_writing_role :: Middleware where
  "mw_writing_role inp = (Inr no_ctx, (inp_ctx inp)(''role'' \<mapsto> JStr ''admin''))"

definition return_nothing :: Handler where
  "return_nothing inp = Inr (PlainValue JUndefined)"

definition raise_teapot :: Handler where
  "raise_teapot inp =
     Inl (throw_ApiError (new_ApiError (Some 1000) (Some ''TEAPOT'') ''Short and stout.'' None))"

definition echo_role :: Handler where
  "echo_role inp =
     Inr (PlainValue (case inp_ctx inp ''role'' of None \<Rightarrow> JNull | Some v \<Rightarrow> v))"

definition echo_input :: Handler where
  "echo_input inp =
     Inr (PlainValue (JArr [inp_context inp, inp_query inp, inp_body inp]))"

definition no_content :: NextResponse where
  "no_content = \<lparr>status = 204, json_body = JUndefined\<rparr>"

definition respond_no_content :: Handler where
  "respond_no_content inp = Inr (IsNextResponse no_content)"

definition raise_marked_unauthorized :: Handler where
  "raise_marked_unauthorized inp = Inl marked_unauthorized"

definition raise_database_down :: Handler where
  "raise_database_down inp = Inl database_down"

definition failing_hook :: FailureHandler where
  "failing_hook req error = Inl (ThrownPrimitive (JStr ''logger offline''))"

definition quiet_hook :: FailureHandler where
  "quiet_hook req error = Inr ()"

section \<open>Facts about the stages\<close>

lemma validate_without_schema: "validate None data = Inr data"
  by (simp add: validate_def)

lemma validate_rejected:
  "s data = Inr (Failure iss) \<Longrightarrow>
   validate (Some s) data =
     Inl (throw_ApiError \<lparr>message = ''Invalid input.'', code = 400, type = ''VALIDATION_ERROR'',
                          issues = Some iss\<rparr>)"
  by (simp add: validate_def new_ApiError_def)

lemma validateBody_other_methods:
  "m \<notin> {POST, PUT, PATCH} \<Longrightarrow> validateBody schema m req = Inr JUndefined"
  by (simp add: validateBody_def)

lemma validateBody_unparsable:
  "m \<in> {POST, PUT, PATCH} \<Longrightarrow> json req = Inl e \<Longrightarrow>
   validateBody schema m req =
     (if schema \<noteq> None
      then Inl (throw_ApiError \<lparr>message = ''Invalid JSON body provided.'', code = 400,
                                type = ''INVALID_BODY'', issues = None\<rparr>)
      else Inr JUndefined)"
  by (auto simp add: validateBody_def new_ApiError_def)

lemma validateBody_raise_replaced:
  "m \<in> {POST, PUT, PATCH} \<Longrightarrow> json req = Inr j \<Longrightarrow> validate (Some s) j = Inl e \<Longrightarrow>
   validateBody (Some s) m req =
     Inl (throw_ApiError \<lparr>message = ''Invalid JSON body provided.'', code = 400,
                          type = ''INVALID_BODY'', issues = None\<rparr>)"
  by (auto simp add: validateBody_def new_ApiError_def)

lemma runHandler_events: "snd (runHandler m handler inp) = [HandlerCall inp]"
  by (simp add: runHandler_def split: sum.splits HandlerResult.splits)

lemma failureHandlerCalls_append:
  "failureHandlerCalls (xs @ ys) = failureHandlerCalls xs @ failureHandlerCalls ys"
  by (induction xs rule: failureHandlerCalls.induct) simp_all

lemma failureHandlerCalls_run:
  "failureHandlerCalls (runFailureHandler fh req error) =
     (case fh of None \<Rightarrow> [] | Some f \<Rightarrow> [(req, error)])"
  by (simp add: runFailureHandler_def split: option.splits sum.splits)

lemma runMiddlewares_no_hook:
  "failureHandlerCalls (snd (runMiddlewares mws base i cum)) = []"
  by (induction mws base i cum rule: runMiddlewares.induct)
     (auto split: sum.splits prod.splits)

lemma pipeline_no_hook:
  "failureHandlerCalls (snd (pipeline this m handler req routeCtx)) = []"
proof (cases "validateInput this m req routeCtx")
  case (Inl e)
  then show ?thesis by (simp add: pipeline_def)
next
  case (Inr base)
  obtain r evs where rm: "runMiddlewares (middlewares this) base 0 Map.empty = (r, evs)"
    by (cases "runMiddlewares (middlewares this) base 0 Map.empty")
  from runMiddlewares_no_hook[of "middlewares this" base 0 Map.empty] rm
  have evs: "failureHandlerCalls evs = []" by simp
  show ?thesis
  proof (cases r)
    case (Inl e)
    with Inr rm evs show ?thesis by (simp add: pipeline_def)
  next
    case (Inr cum)
    with \<open>validateInput this m req routeCtx = Inr base\<close> rm evs
    show ?thesis
      by (simp add: pipeline_def failureHandlerCalls_append case_prod_unfold runHandler_events)
  qed
qed

lemma pipeline_ignores_failureHandler:
  "pipeline (this\<lparr>failureHandler := fh\<rparr>) m handler req routeCtx
     = pipeline this m handler req routeCtx"
  by (simp add: pipeline_def validateInput_def cong: sum.case_cong)

lemma pipeline_validation_raises:
  "validateInput this m req routeCtx = Inl e \<Longrightarrow>
   pipeline this m handler req routeCtx = (Inl e, [])"
  by (simp add: pipeline_def)

lemma pipeline_after_validation:
  "validateInput this m req routeCtx = Inr inputBase \<Longrightarrow>
   pipeline this m handler req routeCtx =
     (case runMiddlewares (middlewares this) inputBase 0 Map.empty of
        (Inl e, evs) \<Rightarrow> (Inl e, evs)
      | (Inr cumulativeCtx, evs) \<Rightarrow>
          (fst (runHandler m handler (with_ctx inputBase cumulativeCtx)),
           evs @ [HandlerCall (with_ctx inputBase cumulativeCtx)]))"
  by (simp add: pipeline_def case_prod_unfold runHandler_events cong: sum.case_cong)

lemma routeHandler_success:
  "pipeline this m handler req routeCtx = (Inr response, evs) \<Longrightarrow>
   routeHandler this m handler req routeCtx = (Inr response, evs)"
  by (simp add: routeHandler_def)

lemma routeHandler_rethrows:
  "pipeline this m handler req routeCtx = (Inl error, evs) \<Longrightarrow> isNextJsInternalError error \<Longrightarrow>
   routeHandler this m handler req routeCtx = (Inl error, evs)"
  by (simp add: routeHandler_def onError_def)

lemma routeHandler_ApiError:
  "pipeline this m handler req routeCtx = (Inl error, evs) \<Longrightarrow> \<not> isNextJsInternalError error \<Longrightarrow>
   instanceofApiError error = Some apiError \<Longrightarrow>
   routeHandler this m handler req routeCtx =
     (NextResponse_json (error_body apiError) (code apiError), evs)"
  by (simp add: routeHandler_def onError_def)

lemma routeHandler_unclassified:
  "pipeline this m handler req routeCtx = (Inl error, evs) \<Longrightarrow> \<not> isNextJsInternalError error \<Longrightarrow>
   instanceofApiError error = None \<Longrightarrow>
   routeHandler this m handler req routeCtx =
     (internal_error_response,
      evs @ runFailureHandler (failureHandler this) req error
          @ [ConsoleError ''Unhandled API error:'' error])"
  by (simp add: routeHandler_def onError_def)

lemma NextResponse_json_builds:
  "v \<noteq> JUndefined \<Longrightarrow> 200 \<le> s \<Longrightarrow> s \<le> 599 \<Longrightarrow> s \<notin> {204, 205, 304} \<Longrightarrow>
   NextResponse_json v s = Inr \<lparr>status = s, json_body = v\<rparr>"
  by (simp add: NextResponse_json_def)

lemma NextResponse_json_throws:
  "NextResponse_json JUndefined s = Inl (js_error ''TypeError'')"
  "v \<noteq> JUndefined \<Longrightarrow> s < 200 \<or> 599 < s \<Longrightarrow>
     NextResponse_json v s = Inl (js_error ''RangeError'')"
  "v \<noteq> JUndefined \<Longrightarrow> s \<in> {204, 205, 304} \<Longrightarrow>
     NextResponse_json v s = Inl (js_error ''TypeError'')"
  by (auto simp add: NextResponse_json_def)

lemma internal_error_response_built:
  "internal_error_response =
     Inr \<lparr>status = 500,
          json_body = JObj [(''message'', JStr ''An internal server error occurred.''),
                            (''type'', JStr ''INTERNAL_SERVER_ERROR'')]\<rparr>"
  by (simp add: internal_error_response_def NextResponse_json_def)

lemma js_error_unclassified:
  "\<not> isNextJsInternalError (js_error name)" "instanceofApiError (js_error name) = None"
  by (simp_all add: js_error_def)

lemma fresh_ApiError_is_no_signal: "\<not> isNextJsInternalError (throw_ApiError a)"
  by (simp add: throw_ApiError_def)

lemma validateInput_unparsable_with_schema:
  "m \<in> {POST, PUT, PATCH} \<Longrightarrow> json req = Inl e \<Longrightarrow> bodySchema this \<noteq> None \<Longrightarrow>
   \<exists>error. validateInput this m req routeCtx = Inl error"
  by (auto simp add: validateInput_def validateBody_unparsable split: sum.splits)

lemma body_step_raise_answered_INVALID_BODY:
  assumes "m \<in> {POST, PUT, PATCH}"
    and "json req = Inr j"
    and "bodySchema this = Some s"
    and "validate (Some s) j = Inl e"
    and "params routeCtx = Inr p"
    and "validate (contextSchema this) p = Inr validatedContext"
    and "validate (querySchema this) (fromEntries (searchParams req)) = Inr validatedQuery"
  shows "routeHandler this m handler req routeCtx =
           (Inr \<lparr>status = 400,
                 json_body = JObj [(''message'', JStr ''Invalid JSON body provided.''),
                                   (''type'', JStr ''INVALID_BODY''),
                                   (''issues'', JUndefined)]\<rparr>, [])"
proof -
  let ?e = "throw_ApiError \<lparr>message = ''Invalid JSON body provided.'', code = 400,
                             type = ''INVALID_BODY'', issues = None\<rparr>"
  from assms have "validateInput this m req routeCtx = Inl ?e"
    by (simp add: validateInput_def validateBody_raise_replaced)
  then have raised: "pipeline this m handler req routeCtx = (Inl ?e, [])"
    by (rule pipeline_validation_raises)
  have "instanceofApiError ?e = Some \<lparr>message = ''Invalid JSON body provided.'', code = 400,
                             type = ''INVALID_BODY'', issues = None\<rparr>"
    by (simp add: throw_ApiError_def)
  from routeHandler_ApiError[OF raised fresh_ApiError_is_no_signal this]
  show ?thesis
    by (simp add: NextResponse_json_def error_body_def issues_json_def)
qed

lemma builder_with_fields:
  "contextSchema (builder_with ms) = None" "querySchema (builder_with ms) = None"
  "bodySchema (builder_with ms) = None" "middlewares (builder_with ms) = ms"
  "failureHandler (builder_with ms) = None"
  by (simp_all add: builder_with_def)

lemma example_validateInput:
  "validateInput (builder_with ms) GET example_req example_routeCtx
     = Inr (example_base JUndefined example_req)"
  by (simp add: validateInput_def builder_with_def example_req_def example_routeCtx_def
      example_base_def validate_def validateBody_def fromEntries_def)

lemma example_validateInput_POST:
  "validateInput (builder_with ms) POST example_req example_routeCtx
     = Inr (example_base (JObj [(''title'', JStr ''hello'')]) example_req)"
  by (simp add: validateInput_def builder_with_def example_req_def example_routeCtx_def
      example_base_def validate_def validateBody_def fromEntries_def)

lemma example_validateInput_DELETE:
  "validateInput (builder_with ms) DELETE example_req example_routeCtx
     = Inr (example_base JUndefined example_req)"
  by (simp add: validateInput_def builder_with_def example_req_def example_routeCtx_def
      example_base_def validate_def validateBody_def fromEntries_def)

section \<open>The builder\<close>

lemma lookup_Some_less: "lookup h a = Some ob \<Longrightarrow> a < length h"
  by (simp add: lookup_def split: if_splits)

lemma lookup_append_old: "lookup h a = Some ob \<Longrightarrow> lookup (h @ xs) a = Some ob"
  by (simp add: lookup_def nth_append split: if_splits)

lemma this_fields_append:
  "this_fields h a = Some b \<Longrightarrow> this_fields (h @ xs) a = Some b"
  by (auto simp add: this_fields_def lookup_append_old split: option.splits obj.splits)

lemma configure_step:
  assumes "this_fields h this = Some b"
  shows "\<exists>this' xs. configure c this h = Some (this', h @ xs)
           \<and> length h \<le> this'
           \<and> this_fields (h @ xs) this' = Some (one_field_changed c b)"
proof -
  from assms obtain b0 ms where
    l: "lookup h this = Some (BuilderObj b0)" and
    a: "lookup h (middlewares b0) = Some (ArrayObj ms)" and
    b: "b = \<lparr>contextSchema = contextSchema b0, querySchema = querySchema b0,
             bodySchema = bodySchema b0, middlewares = ms, failureHandler = failureHandler b0\<rparr>"
    by (auto simp add: this_fields_def split: option.splits obj.splits)
  from a have arr: "middlewares b0 < length h" by (rule lookup_Some_less)
  show ?thesis
  proof (cases c)
    case (Context schema)
    with l a arr b show ?thesis
      by (simp add: ApiBuilder_context_def new_ApiBuilder_def alloc_def this_fields_def
          lookup_def nth_append)
  next
    case (Query schema)
    with l a arr b show ?thesis
      by (simp add: ApiBuilder_query_def new_ApiBuilder_def alloc_def this_fields_def
          lookup_def nth_append)
  next
    case (Body schema)
    with l a arr b show ?thesis
      by (simp add: ApiBuilder_body_def new_ApiBuilder_def alloc_def this_fields_def
          lookup_def nth_append)
  next
    case (Use middleware)
    with l a arr b show ?thesis
      by (simp add: ApiBuilder_use_def new_ApiBuilder_def alloc_def this_fields_def
          lookup_def nth_append)
  next
    case (Failed handler)
    with l a arr b show ?thesis
      by (simp add: ApiBuilder_failed_def new_ApiBuilder_def alloc_def this_fields_def
          lookup_def nth_append)
  qed
qed

lemma createApiHandler_fields:
  "this_fields (snd (createApiHandler h)) (fst (createApiHandler h)) = Some (builder_with [])"
  by (simp add: createApiHandler_def new_ApiBuilder_def alloc_def this_fields_def lookup_def
      builder_with_def nth_append)

text \<open>
  C4. Let \<open>base\<close> be a builder on the heap with configuration \<open>b\<close>, and let two configuration
  calls \<open>c1\<close> and \<open>c2\<close> (any of \<open>context\<close>, \<open>query\<close>, \<open>body\<close>, \<open>use\<close>, \<open>failed\<close>) be made
  on it, one after the other. Each returns a builder at an address that held no object before;
  every object of the heap before the call, \<open>base\<close> and its middleware array among them, is
  the same after it; the new builder has the configuration of \<open>base\<close> with the one field
  changed. The route handlers compiled from the two branches and from \<open>base\<close> run, after
  both calls, the pipeline of their own configuration.
\<close>

theorem configuration_calls_never_mutate:
  assumes "this_fields h base = Some b"
  shows "\<exists>this1 h1 this2 h2.
      configure c1 base h = Some (this1, h1) \<and> configure c2 base h1 = Some (this2, h2)
    \<and> lookup h this1 = None \<and> lookup h1 this2 = None
    \<and> (\<forall>a ob. lookup h a = Some ob \<longrightarrow> lookup h1 a = Some ob)
    \<and> (\<forall>a ob. lookup h1 a = Some ob \<longrightarrow> lookup h2 a = Some ob)
    \<and> this_fields h1 this1 = Some (one_field_changed c1 b)
    \<and> this_fields h1 base = Some b
    \<and> this_fields h2 this2 = Some (one_field_changed c2 b)
    \<and> this_fields h2 this1 = Some (one_field_changed c1 b)
    \<and> this_fields h2 base = Some b
    \<and> (\<forall>m handler req routeCtx.
          createRouteHandler this1 m handler h2 req routeCtx =
            Some (routeHandler (one_field_changed c1 b) m handler req routeCtx)
        \<and> createRouteHandler this2 m handler h2 req routeCtx =
            Some (routeHandler (one_field_changed c2 b) m handler req routeCtx)
        \<and> createRouteHandler base m handler h2 req routeCtx =
            Some (routeHandler b m handler req routeCtx))"
proof -
  from configure_step[OF assms, of c1] obtain this1 xs where
    s1: "configure c1 base h = Some (this1, h @ xs)" and
    n1: "length h \<le> this1" and
    f1: "this_fields (h @ xs) this1 = Some (one_field_changed c1 b)"
    by blast
  have b1: "this_fields (h @ xs) base = Some b"
    using assms by (rule this_fields_append)
  from configure_step[OF b1, of c2] obtain this2 ys where
    s2: "configure c2 base (h @ xs) = Some (this2, (h @ xs) @ ys)" and
    n2: "length (h @ xs) \<le> this2" and
    f2: "this_fields ((h @ xs) @ ys) this2 = Some (one_field_changed c2 b)"
    by blast
  have f12: "this_fields ((h @ xs) @ ys) this1 = Some (one_field_changed c1 b)"
    using f1 by (rule this_fields_append)
  have b2: "this_fields ((h @ xs) @ ys) base = Some b"
    using b1 by (rule this_fields_append)
  have fresh1: "lookup h this1 = None" using n1 by (simp add: lookup_def)
  have fresh2: "lookup (h @ xs) this2 = None" using n2 by (simp add: lookup_def)
  have old1: "\<forall>a ob. lookup h a = Some ob \<longrightarrow> lookup (h @ xs) a = Some ob"
    by (simp add: lookup_append_old)
  have old2: "\<forall>a ob. lookup (h @ xs) a = Some ob \<longrightarrow> lookup ((h @ xs) @ ys) a = Some ob"
    using lookup_append_old[of "h @ xs" _ _ ys] by blast
  have run: "\<forall>m handler req routeCtx.
          createRouteHandler this1 m handler ((h @ xs) @ ys) req routeCtx =
            Some (routeHandler (one_field_changed c1 b) m handler req routeCtx)
        \<and> createRouteHandler this2 m handler ((h @ xs) @ ys) req routeCtx =
            Some (routeHandler (one_field_changed c2 b) m handler req routeCtx)
        \<and> createRouteHandler base m handler ((h @ xs) @ ys) req routeCtx =
            Some (routeHandler b m handler req routeCtx)"
    unfolding createRouteHandler_def f12 f2 b2 by simp
  from s1 s2 fresh1 fresh2 old1 old2 f1 b1 f2 f12 b2 run show ?thesis
    by blast
qed

theorem configuration_branches_witness:
  "this_fields (snd (createApiHandler [])) (fst (createApiHandler [])) = Some (builder_with [])
   \<and> (\<exists>this1 h1 this2 h2.
        configure (Context accepting_schema) (fst (createApiHandler [])) (snd (createApiHandler []))
          = Some (this1, h1)
      \<and> configure (Context rejecting_schema) (fst (createApiHandler [])) h1 = Some (this2, h2)
      \<and> createRouteHandler this1 GET echo_input h2 example_req example_routeCtx =
          Some (Inr \<lparr>status = 200,
                     json_body = JArr [JObj [(''id'', JStr ''7'')],
                                       JObj [(''include'', JStr ''true'')], JUndefined]\<rparr>,
                [HandlerCall (with_ctx (example_base JUndefined example_req) Map.empty)])
      \<and> createRouteHandler this2 GET echo_input h2 example_req example_routeCtx =
          Some (Inr \<lparr>status = 400,
                     json_body = JObj [(''message'', JStr ''Invalid input.''),
                                       (''type'', JStr ''VALIDATION_ERROR''),
                                       (''issues'', JArr [required_issue])]\<rparr>, []))"
proof -
  let ?h = "snd (createApiHandler [])" and ?base = "fst (createApiHandler [])"
  have hyp: "this_fields ?h ?base = Some (builder_with [])"
    by (rule createApiHandler_fields)
  have ra: "routeHandler (one_field_changed (Context accepting_schema) (builder_with [])) GET
        echo_input example_req example_routeCtx =
      (Inr \<lparr>status = 200,
            json_body = JArr [JObj [(''id'', JStr ''7'')],
                              JObj [(''include'', JStr ''true'')], JUndefined]\<rparr>,
       [HandlerCall (with_ctx (example_base JUndefined example_req) Map.empty)])"
    by (simp add: routeHandler_def pipeline_def validateInput_def validateBody_def validate_def
        builder_with_def accepting_schema_def example_req_def example_routeCtx_def
        runHandler_def echo_input_def with_ctx_def example_base_def NextResponse_json_def
        fromEntries_def)
  have rb: "routeHandler (one_field_changed (Context rejecting_schema) (builder_with [])) GET
        echo_input example_req example_routeCtx =
      (Inr \<lparr>status = 400,
            json_body = JObj [(''message'', JStr ''Invalid input.''),
                              (''type'', JStr ''VALIDATION_ERROR''),
                              (''issues'', JArr [required_issue])]\<rparr>, [])"
    by (simp add: routeHandler_def pipeline_def validateInput_def validateBody_def validate_def
        builder_with_def rejecting_schema_def example_req_def example_routeCtx_def onError_def
        throw_ApiError_def new_ApiError_def error_body_def issues_json_def NextResponse_json_def
        fromEntries_def)
  from configuration_calls_never_mutate[OF hyp,
      of "Context accepting_schema" "Context rejecting_schema"]
  obtain this1 h1 this2 h2 where
    "configure (Context accepting_schema) ?base ?h = Some (this1, h1)"
    "configure (Context rejecting_schema) ?base h1 = Some (this2, h2)"
    "createRouteHandler this1 GET echo_input h2 example_req example_routeCtx =
       Some (routeHandler (one_field_changed (Context accepting_schema) (builder_with [])) GET
               echo_input example_req example_routeCtx)"
    "createRouteHandler this2 GET echo_input h2 example_req example_routeCtx =
       Some (routeHandler (one_field_changed (Context rejecting_schema) (builder_with [])) GET
               echo_input example_req example_routeCtx)"
    by blast
  with hyp ra rb show ?thesis by (intro conjI exI[of _ this1] exI[of _ h1] exI[of _ this2] exI[of _ h2]) simp_all
qed

section \<open>Validation\<close>

text \<open>
  C2. No schema is configured and the request is a \<^verbatim>\<open>POST\<close> with route parameters, a query
  string and a payload: the handler is called with the raw route parameters, the raw query
  object and the raw parsed payload as \<open>context\<close>, \<open>query\<close> and \<open>body\<close>, none of them
  \<open>undefined\<close>.
\<close>

theorem unconfigured_fields_carry_raw_input:
  "snd (routeHandler (builder_with []) POST echo_input example_req example_routeCtx) =
     [HandlerCall
        \<lparr>inp_context = JObj [(''id'', JStr ''7'')],
         inp_query = JObj [(''include'', JStr ''true'')],
         inp_body = JObj [(''title'', JStr ''hello'')],
         inp_req = example_req, inp_ctx = Map.empty\<rparr>]
   \<and> JObj [(''id'', JStr ''7'')] \<noteq> JUndefined
   \<and> JObj [(''include'', JStr ''true'')] \<noteq> JUndefined
   \<and> JObj [(''title'', JStr ''hello'')] \<noteq> JUndefined"
  by (simp add: routeHandler_def pipeline_def validateInput_def validateBody_def validate_def
      builder_with_def example_req_def example_routeCtx_def runHandler_def echo_input_def
      with_ctx_def fromEntries_def NextResponse_json_def)

text \<open>
  C1. A \<^verbatim>\<open>POST\<close> whose payload parses and whose body schema rejects it with one issue: the
  response is 400 with type \<open>INVALID_BODY\<close> and no issues, where the same schema installed
  as context schema gives 400 with type \<open>VALIDATION_ERROR\<close> and the schema's issue.
\<close>

theorem rejected_body_reported_as_INVALID_BODY:
  "routeHandler ((builder_with [])\<lparr>bodySchema := Some rejecting_schema\<rparr>) POST echo_input
       example_req example_routeCtx =
     (Inr \<lparr>status = 400,
           json_body = JObj [(''message'', JStr ''Invalid JSON body provided.''),
                             (''type'', JStr ''INVALID_BODY''), (''issues'', JUndefined)]\<rparr>, [])
   \<and> routeHandler ((builder_with [])\<lparr>contextSchema := Some rejecting_schema\<rparr>) POST echo_input
       example_req example_routeCtx =
     (Inr \<lparr>status = 400,
           json_body = JObj [(''message'', JStr ''Invalid input.''),
                             (''type'', JStr ''VALIDATION_ERROR''),
                             (''issues'', JArr [required_issue])]\<rparr>, [])"
  by (simp add: routeHandler_def pipeline_def validateInput_def validateBody_def validate_def
      builder_with_def rejecting_schema_def example_req_def example_routeCtx_def onError_def
      throw_ApiError_def new_ApiError_def error_body_def issues_json_def NextResponse_json_def
      fromEntries_def)

text \<open>
  C5. A \<^verbatim>\<open>POST\<close>, \<^verbatim>\<open>PUT\<close> or \<^verbatim>\<open>PATCH\<close> request whose payload cannot be parsed. With a
  body schema the body step raises the Typed Error 400 \<open>INVALID_BODY\<close>, and the pipeline
  ends in an error without having called a middleware or the handler; without a body schema
  the body step raises nothing and leaves \<open>body\<close> \<open>undefined\<close>. When the request has passed
  the context and query validation: with a body schema the pipeline raises that
  \<open>INVALID_BODY\<close> error and the response carries it; without one, validation succeeds with
  \<open>body\<close> \<open>undefined\<close> and the run goes on with the middleware chain and the handler.
\<close>

theorem unparsable_payload:
  assumes "m \<in> {POST, PUT, PATCH}"
    and "json req = Inl parseError"
  shows "(bodySchema this \<noteq> None \<longrightarrow>
            validateBody (bodySchema this) m req =
              Inl (throw_ApiError \<lparr>message = ''Invalid JSON body provided.'', code = 400,
                                     type = ''INVALID_BODY'', issues = None\<rparr>)
          \<and> (\<exists>error. pipeline this m handler req routeCtx = (Inl error, [])))
       \<and> (bodySchema this = None \<longrightarrow> validateBody (bodySchema this) m req = Inr JUndefined)
       \<and> (\<forall>p validatedContext validatedQuery.
            params routeCtx = Inr p \<longrightarrow>
            validate (contextSchema this) p = Inr validatedContext \<longrightarrow>
            validate (querySchema this) (fromEntries (searchParams req)) = Inr validatedQuery \<longrightarrow>
            (bodySchema this \<noteq> None \<longrightarrow>
               pipeline this m handler req routeCtx =
                 (Inl (throw_ApiError \<lparr>message = ''Invalid JSON body provided.'', code = 400,
                                        type = ''INVALID_BODY'', issues = None\<rparr>), [])
             \<and> routeHandler this m handler req routeCtx =
                 (Inr \<lparr>status = 400,
                       json_body = JObj [(''message'', JStr ''Invalid JSON body provided.''),
                                         (''type'', JStr ''INVALID_BODY''),
                                         (''issues'', JUndefined)]\<rparr>, []))
          \<and> (bodySchema this = None \<longrightarrow>
               validateInput this m req routeCtx =
                 Inr \<lparr>inp_context = validatedContext, inp_query = validatedQuery,
                      inp_body = JUndefined, inp_req = req\<rparr>
             \<and> pipeline this m handler req routeCtx =
                 (case runMiddlewares (middlewares this)
                         \<lparr>inp_context = validatedContext, inp_query = validatedQuery,
                          inp_body = JUndefined, inp_req = req\<rparr> 0 Map.empty of
                    (Inl e, evs) \<Rightarrow> (Inl e, evs)
                  | (Inr cumulativeCtx, evs) \<Rightarrow>
                      (fst (runHandler m handler
                             (with_ctx \<lparr>inp_context = validatedContext,
                                        inp_query = validatedQuery,
                                        inp_body = JUndefined, inp_req = req\<rparr> cumulativeCtx)),
                       evs @ [HandlerCall
                             (with_ctx \<lparr>inp_context = validatedContext,
                                        inp_query = validatedQuery,
                                        inp_body = JUndefined, inp_req = req\<rparr> cumulativeCtx)]))))"
proof (intro conjI impI allI)
  assume schema: "bodySchema this \<noteq> None"
  from assms schema
  show "validateBody (bodySchema this) m req =
              Inl (throw_ApiError \<lparr>message = ''Invalid JSON body provided.'', code = 400,
                                     type = ''INVALID_BODY'', issues = None\<rparr>)"
    by (simp add: validateBody_unparsable)
  from validateInput_unparsable_with_schema[OF assms schema, of routeCtx]
  obtain error where "validateInput this m req routeCtx = Inl error" ..
  then have "pipeline this m handler req routeCtx = (Inl error, [])"
    by (rule pipeline_validation_raises)
  then show "\<exists>error. pipeline this m handler req routeCtx = (Inl error, [])" ..
next
  assume "bodySchema this = None"
  with assms show "validateBody (bodySchema this) m req = Inr JUndefined"
    by (simp add: validateBody_unparsable)
next
  fix p validatedContext validatedQuery
  assume steps: "params routeCtx = Inr p" "validate (contextSchema this) p = Inr validatedContext"
    "validate (querySchema this) (fromEntries (searchParams req)) = Inr validatedQuery"
  {
    assume schema: "bodySchema this \<noteq> None"
    let ?e = "throw_ApiError \<lparr>message = ''Invalid JSON body provided.'', code = 400,
                               type = ''INVALID_BODY'', issues = None\<rparr>"
    from assms steps schema have "validateInput this m req routeCtx = Inl ?e"
      by (simp add: validateInput_def validateBody_unparsable)
    then show raised: "pipeline this m handler req routeCtx = (Inl ?e, [])"
      by (rule pipeline_validation_raises)
    have "instanceofApiError ?e = Some \<lparr>message = ''Invalid JSON body provided.'', code = 400,
                               type = ''INVALID_BODY'', issues = None\<rparr>"
      by (simp add: throw_ApiError_def)
    from routeHandler_ApiError[OF raised fresh_ApiError_is_no_signal this]
    show "routeHandler this m handler req routeCtx =
                (Inr \<lparr>status = 400,
                      json_body = JObj [(''message'', JStr ''Invalid JSON body provided.''),
                                        (''type'', JStr ''INVALID_BODY''),
                                        (''issues'', JUndefined)]\<rparr>, [])"
      by (simp add: NextResponse_json_def error_body_def issues_json_def)
  }
  {
    assume none: "bodySchema this = None"
    from assms steps none
    show v: "validateInput this m req routeCtx =
                Inr \<lparr>inp_context = validatedContext, inp_query = validatedQuery,
                     inp_body = JUndefined, inp_req = req\<rparr>"
      by (simp add: validateInput_def validateBody_unparsable)
    show "pipeline this m handler req routeCtx =
                 (case runMiddlewares (middlewares this)
                         \<lparr>inp_context = validatedContext, inp_query = validatedQuery,
                          inp_body = JUndefined, inp_req = req\<rparr> 0 Map.empty of
                    (Inl e, evs) \<Rightarrow> (Inl e, evs)
                  | (Inr cumulativeCtx, evs) \<Rightarrow>
                      (fst (runHandler m handler
                             (with_ctx \<lparr>inp_context = validatedContext,
                                        inp_query = validatedQuery,
                                        inp_body = JUndefined, inp_req = req\<rparr> cumulativeCtx)),
                       evs @ [HandlerCall
                             (with_ctx \<lparr>inp_context = validatedContext,
                                        inp_query = validatedQuery,
                                        inp_body = JUndefined, inp_req = req\<rparr> cumulativeCtx)]))"
      by (rule pipeline_after_validation[OF v])
  }
qed

theorem unparsable_payload_witness:
  "routeHandler ((builder_with [mw_user])\<lparr>bodySchema := Some accepting_schema\<rparr>) POST echo_input
       unparsable_req example_routeCtx =
     (Inr \<lparr>status = 400,
           json_body = JObj [(''message'', JStr ''Invalid JSON body provided.''),
                             (''type'', JStr ''INVALID_BODY''), (''issues'', JUndefined)]\<rparr>, [])
   \<and> pipeline (builder_with [mw_user]) PUT echo_input unparsable_req example_routeCtx =
     (Inr \<lparr>status = 200,
           json_body = JArr [JObj [(''id'', JStr ''7'')], JObj [(''include'', JStr ''true'')],
                             JUndefined]\<rparr>,
      [MiddlewareCall 0 (with_ctx (example_base JUndefined unparsable_req) Map.empty),
       HandlerCall (with_ctx (example_base JUndefined unparsable_req)
                      [''user'' \<mapsto> JStr ''ann'', ''role'' \<mapsto> JStr ''guest''])])"
proof -
  let ?p = "JObj [(''id'', JStr ''7'')]"
  let ?q = "JObj [(''include'', JStr ''true'')]"
  let ?e = "ThrownObject [(''name'', JStr ''SyntaxError'')] None"
  let ?a = "(builder_with [mw_user])\<lparr>bodySchema := Some accepting_schema\<rparr>"
  let ?b = "builder_with [mw_user]"
  have j: "json unparsable_req = Inl ?e" by (simp add: unparsable_req_def)
  have p: "params example_routeCtx = Inr ?p" by (simp add: example_routeCtx_def)
  have ca: "validate (contextSchema ?a) ?p = Inr ?p"
    and cb: "validate (contextSchema ?b) ?p = Inr ?p"
    by (simp_all add: builder_with_def validate_def)
  have qa: "validate (querySchema ?a) (fromEntries (searchParams unparsable_req)) = Inr ?q"
    and qb: "validate (querySchema ?b) (fromEntries (searchParams unparsable_req)) = Inr ?q"
    by (simp_all add: builder_with_def validate_def unparsable_req_def fromEntries_def)
  have m1: "POST \<in> {POST, PUT, PATCH}" and m2: "PUT \<in> {POST, PUT, PATCH}" by simp_all
  note A = unparsable_payload[OF m1 j, of ?a echo_input example_routeCtx,
      THEN conjunct2, THEN conjunct2, rule_format, OF p ca qa]
  note B = unparsable_payload[OF m2 j, of ?b echo_input example_routeCtx,
      THEN conjunct2, THEN conjunct2, rule_format, OF p cb qb]
  from A B show ?thesis
    by (simp add: builder_with_def mw_user_def runHandler_def echo_input_def with_ctx_def
        example_base_def NextResponse_json_def)
qed

section \<open>The middleware chain\<close>

lemma runMiddlewares_prefix:
  "length outs \<le> length mws \<Longrightarrow>
   \<forall>j<length outs.
      (mws ! j) (with_ctx base (foldl (++) cum (take j outs)))
        = (Inr (outs ! j), foldl (++) cum (take j outs)) \<Longrightarrow>
   runMiddlewares mws base i cum =
     (case runMiddlewares (drop (length outs) mws) base (i + length outs) (foldl (++) cum outs) of
        (r, evs) \<Rightarrow>
          (r, map (\<lambda>j. MiddlewareCall (i + j) (with_ctx base (foldl (++) cum (take j outs))))
                [0..<length outs] @ evs))"
proof (induction outs arbitrary: mws i cum)
  case Nil
  then show ?case by (simp split: prod.splits)
next
  case (Cons out outs)
  then obtain mw rest where mws: "mws = mw # rest" by (cases mws) auto
  from Cons.prems(2) have h0: "mw (with_ctx base cum) = (Inr out, cum)"
    unfolding mws by fastforce
  have hs: "\<forall>j<length outs.
      (rest ! j) (with_ctx base (foldl (++) (cum ++ out) (take j outs)))
        = (Inr (outs ! j), foldl (++) (cum ++ out) (take j outs))"
  proof (intro allI impI)
    fix j assume "j < length outs"
    then have "Suc j < length (out # outs)" by simp
    with Cons.prems(2)
    have "(mws ! Suc j) (with_ctx base (foldl (++) cum (take (Suc j) (out # outs))))
            = (Inr ((out # outs) ! Suc j), foldl (++) cum (take (Suc j) (out # outs)))"
      by blast
    then show "(rest ! j) (with_ctx base (foldl (++) (cum ++ out) (take j outs)))
        = (Inr (outs ! j), foldl (++) (cum ++ out) (take j outs))"
      by (simp add: mws)
  qed
  have len: "length outs \<le> length rest" using Cons.prems(1) mws by simp
  have map_shift:
    "map (\<lambda>j. MiddlewareCall (i + j) (with_ctx base (foldl (++) cum (take j (out # outs)))))
       [0..<length (out # outs)]
     = MiddlewareCall i (with_ctx base cum)
       # map (\<lambda>j. MiddlewareCall (Suc i + j)
                  (with_ctx base (foldl (++) (cum ++ out) (take j outs)))) [0..<length outs]"
    by (simp add: upt_rec[of 0] map_Suc_upt[symmetric] del: upt_Suc)
  show ?case
    unfolding map_shift
    by (simp add: mws h0 Cons.IH[OF len hs, of "Suc i"] split: prod.splits)
qed

lemma runMiddlewares_all:
  assumes "length outs = length mws"
    and "\<forall>j<length outs.
      (mws ! j) (with_ctx base (foldl (++) cum (take j outs)))
        = (Inr (outs ! j), foldl (++) cum (take j outs))"
  shows "runMiddlewares mws base i cum =
     (Inr (foldl (++) cum outs),
      map (\<lambda>j. MiddlewareCall (i + j) (with_ctx base (foldl (++) cum (take j outs))))
        [0..<length outs])"
  using runMiddlewares_prefix[of outs mws base cum i] assms by simp

lemma runMiddlewares_raise:
  assumes "length outs < length mws"
    and "\<forall>j<length outs.
      (mws ! j) (with_ctx base (foldl (++) cum (take j outs)))
        = (Inr (outs ! j), foldl (++) cum (take j outs))"
    and "fst ((mws ! length outs) (with_ctx base (foldl (++) cum outs))) = Inl e"
  shows "runMiddlewares mws base i cum =
     (Inl e,
      map (\<lambda>j. MiddlewareCall (i + j) (with_ctx base (foldl (++) cum (take j outs))))
        [0..<Suc (length outs)])"
proof -
  from assms(1)
  have d: "drop (length outs) mws = (mws ! length outs) # drop (Suc (length outs)) mws"
    by (simp add: Cons_nth_drop_Suc)
  have "runMiddlewares (drop (length outs) mws) base (i + length outs) (foldl (++) cum outs)
      = (Inl e, [MiddlewareCall (i + length outs) (with_ctx base (foldl (++) cum outs))])"
    unfolding d using assms(3) by (simp add: case_prod_unfold split: sum.splits)
  with runMiddlewares_prefix[of outs mws base cum i] assms(1,2) show ?thesis by simp
qed

text \<open>
  When no step writes to the \<open>ctx\<close> it receives, every run of the chain is of one of two
  kinds: all steps return, or some first step raises after the steps before it have returned.
\<close>

lemma middleware_outputs_exist:
  assumes "\<forall>mw\<in>set mws. \<forall>inp. snd (mw inp) = inp_ctx inp"
  shows "\<exists>outs. length outs \<le> length mws
     \<and> (\<forall>i<length outs. (mws ! i) (with_ctx base (merge_outputs (take i outs)))
                           = (Inr (outs ! i), merge_outputs (take i outs)))
     \<and> (length outs = length mws
        \<or> (\<exists>e. fst ((mws ! length outs) (with_ctx base (merge_outputs outs))) = Inl e))"
  using assms
proof (induction mws rule: rev_induct)
  case Nil
  show ?case by (rule exI[of _ "[]"]) simp
next
  case (snoc mw mws)
  then obtain outs where len: "length outs \<le> length mws"
    and run: "\<forall>i<length outs. (mws ! i) (with_ctx base (merge_outputs (take i outs)))
                = (Inr (outs ! i), merge_outputs (take i outs))"
    and fin: "length outs = length mws
        \<or> (\<exists>e. fst ((mws ! length outs) (with_ctx base (merge_outputs outs))) = Inl e)"
    by auto
  from snoc.prems
  have keeps: "snd (mw (with_ctx base (merge_outputs outs))) = merge_outputs outs"
    by (simp add: with_ctx_def)
  show ?case
  proof (cases "length outs = length mws")
    case False
    with len fin run show ?thesis
      by (intro exI[of _ outs]) (auto simp add: nth_append)
  next
    case True
    show ?thesis
    proof (cases "fst (mw (with_ctx base (merge_outputs outs)))")
      case (Inl e)
      with True run show ?thesis
        by (intro exI[of _ outs]) (auto simp add: nth_append)
    next
      case (Inr out)
      with keeps have "mw (with_ctx base (merge_outputs outs)) = (Inr out, merge_outputs outs)"
        by (simp add: prod_eq_iff)
      with True run show ?thesis
        by (intro exI[of _ "outs @ [out]"]) (auto simp add: nth_append less_Suc_eq)
    qed
  qed
qed

text \<open>
  C3, the claim as stated fails: the only step returns the empty partial context but writes
  \<open>role\<close> into the \<open>ctx\<close> object it was handed; the handler then receives a \<open>ctx\<close> with
  \<open>role\<close>, which is in the merge of no output.
\<close>

theorem written_ctx_reaches_the_handler:
  "mw_writing_role (with_ctx (example_base JUndefined example_req) no_ctx) =
     (Inr no_ctx, no_ctx(''role'' \<mapsto> JStr ''admin''))
   \<and> merge_outputs [no_ctx] = no_ctx
   \<and> snd (pipeline (builder_with [mw_writing_role]) GET echo_role example_req example_routeCtx) =
       [MiddlewareCall 0 (with_ctx (example_base JUndefined example_req) no_ctx),
        HandlerCall (with_ctx (example_base JUndefined example_req)
                       (no_ctx(''role'' \<mapsto> JStr ''admin'')))]
   \<and> no_ctx(''role'' \<mapsto> JStr ''admin'') \<noteq> merge_outputs [no_ctx]"
proof -
  have ne: "no_ctx(''role'' \<mapsto> JStr ''admin'') \<noteq> no_ctx"
    by (simp add: no_ctx_def fun_eq_iff)
  have m: "merge_outputs [no_ctx] = no_ctx"
    by (simp add: merge_outputs_def no_ctx_def)
  have p: "snd (pipeline (builder_with [mw_writing_role]) GET echo_role example_req
      example_routeCtx) =
       [MiddlewareCall 0 (with_ctx (example_base JUndefined example_req) no_ctx),
        HandlerCall (with_ctx (example_base JUndefined example_req)
                       (no_ctx(''role'' \<mapsto> JStr ''admin'')))]"
    using pipeline_after_validation[OF example_validateInput[of "[mw_writing_role]"],
        of echo_role]
    by (simp add: builder_with_fields mw_writing_role_def no_ctx_def with_ctx_def)
  from ne m p show ?thesis by (simp add: mw_writing_role_def with_ctx_def)
qed

text \<open>
  C3, amended: for steps that leave the \<open>ctx\<close> object they receive as it is. Let validation
  succeed with \<open>inputBase\<close>, and let the first \<open>length outs\<close> middleware steps, each called
  with the merge of the outputs before it, return the partial contexts \<open>outs\<close> without
  writing to their \<open>ctx\<close>. If these are all the steps, the run has called them in the order of
  the array, step \<open>i\<close> with \<open>ctx\<close> the left-to-right merge of the outputs of the steps before
  it (the empty context for the first), and then the handler, once, with the merge of all
  outputs. If the next step raises \<open>e\<close>, the pipeline raises \<open>e\<close> after exactly these calls:
  no later step and no handler has run.
\<close>

theorem middleware_chain_order_and_merge:
  assumes "validateInput this m req routeCtx = Inr inputBase"
    and "length outs \<le> length (middlewares this)"
    and "\<forall>i<length outs.
           (middlewares this ! i) (with_ctx inputBase (merge_outputs (take i outs)))
             = (Inr (outs ! i), merge_outputs (take i outs))"
  shows "(length outs = length (middlewares this) \<longrightarrow>
            pipeline this m handler req routeCtx =
              (fst (runHandler m handler (with_ctx inputBase (merge_outputs outs))),
               map (\<lambda>i. MiddlewareCall i (with_ctx inputBase (merge_outputs (take i outs))))
                 [0..<length outs]
               @ [HandlerCall (with_ctx inputBase (merge_outputs outs))]))
       \<and> (\<forall>e. length outs < length (middlewares this) \<longrightarrow>
            fst ((middlewares this ! length outs) (with_ctx inputBase (merge_outputs outs)))
              = Inl e \<longrightarrow>
            pipeline this m handler req routeCtx =
              (Inl e,
               map (\<lambda>i. MiddlewareCall i (with_ctx inputBase (merge_outputs (take i outs))))
                 [0..<Suc (length outs)]))"
proof (intro conjI impI allI)
  assume all: "length outs = length (middlewares this)"
  have "runMiddlewares (middlewares this) inputBase 0 Map.empty =
     (Inr (merge_outputs outs),
      map (\<lambda>j. MiddlewareCall (0 + j) (with_ctx inputBase (merge_outputs (take j outs))))
        [0..<length outs])"
    unfolding merge_outputs_def using all assms(3)
    by (intro runMiddlewares_all) (simp_all add: merge_outputs_def)
  then show "pipeline this m handler req routeCtx =
              (fst (runHandler m handler (with_ctx inputBase (merge_outputs outs))),
               map (\<lambda>i. MiddlewareCall i (with_ctx inputBase (merge_outputs (take i outs))))
                 [0..<length outs]
               @ [HandlerCall (with_ctx inputBase (merge_outputs outs))])"
    using assms(1) by (simp add: pipeline_def case_prod_unfold runHandler_events)
next
  fix e
  assume less: "length outs < length (middlewares this)"
    and raise: "fst ((middlewares this ! length outs) (with_ctx inputBase (merge_outputs outs)))
              = Inl e"
  have "runMiddlewares (middlewares this) inputBase 0 Map.empty =
     (Inl e,
      map (\<lambda>j. MiddlewareCall (0 + j) (with_ctx inputBase (merge_outputs (take j outs))))
        [0..<Suc (length outs)])"
    unfolding merge_outputs_def using less assms(3) raise
    by (intro runMiddlewares_raise) (simp_all add: merge_outputs_def)
  then show "pipeline this m handler req routeCtx =
              (Inl e,
               map (\<lambda>i. MiddlewareCall i (with_ctx inputBase (merge_outputs (take i outs))))
                 [0..<Suc (length outs)])"
    using assms(1) by (simp add: pipeline_def)
qed

theorem middleware_chain_witness:
  "pipeline (builder_with [mw_user, mw_role]) GET echo_role example_req example_routeCtx =
     (Inr \<lparr>status = 200, json_body = JStr ''admin''\<rparr>,
      [MiddlewareCall 0 (with_ctx (example_base JUndefined example_req) Map.empty),
       MiddlewareCall 1 (with_ctx (example_base JUndefined example_req)
                           [''user'' \<mapsto> JStr ''ann'', ''role'' \<mapsto> JStr ''guest'']),
       HandlerCall (with_ctx (example_base JUndefined example_req)
                           [''user'' \<mapsto> JStr ''ann'', ''role'' \<mapsto> JStr ''admin''])])
   \<and> pipeline (builder_with [mw_user, mw_deny, mw_role]) GET echo_role example_req example_routeCtx =
     (Inl (throw_ApiError unauthorized),
      [MiddlewareCall 0 (with_ctx (example_base JUndefined example_req) Map.empty),
       MiddlewareCall 1 (with_ctx (example_base JUndefined example_req)
                           [''user'' \<mapsto> JStr ''ann'', ''role'' \<mapsto> JStr ''guest''])])"
proof -
  let ?o1 = "[''user'' \<mapsto> JStr ''ann'', ''role'' \<mapsto> JStr ''guest'']"
  let ?o2 = "[''role'' \<mapsto> JStr ''admin'']"
  let ?base = "example_base JUndefined example_req"
  have m12: "Map.empty ++ ?o1 ++ ?o2 = [''user'' \<mapsto> JStr ''ann'', ''role'' \<mapsto> JStr ''admin'']"
    by (simp add: fun_eq_iff map_add_def)
  have a2: "length [?o1, ?o2] \<le> length (middlewares (builder_with [mw_user, mw_role]))"
    by (simp add: builder_with_def)
  have a3: "\<forall>i<length [?o1, ?o2].
      (middlewares (builder_with [mw_user, mw_role]) ! i)
        (with_ctx ?base (merge_outputs (take i [?o1, ?o2])))
      = (Inr ([?o1, ?o2] ! i), merge_outputs (take i [?o1, ?o2]))"
    by (simp add: builder_with_def All_less_Suc merge_outputs_def mw_user_def mw_role_def
        with_ctx_def)
  have b2: "length [?o1] \<le> length (middlewares (builder_with [mw_user, mw_deny, mw_role]))"
    by (simp add: builder_with_def)
  have b3: "\<forall>i<length [?o1].
      (middlewares (builder_with [mw_user, mw_deny, mw_role]) ! i)
        (with_ctx ?base (merge_outputs (take i [?o1])))
      = (Inr ([?o1] ! i), merge_outputs (take i [?o1]))"
    by (simp add: builder_with_def merge_outputs_def mw_user_def with_ctx_def)
  show ?thesis
    using middleware_chain_order_and_merge[OF example_validateInput a2 a3, of echo_role]
      middleware_chain_order_and_merge[OF example_validateInput b2 b3, of echo_role]
    by (simp add: builder_with_def merge_outputs_def m12 mw_deny_def runHandler_def echo_role_def
        with_ctx_def NextResponse_json_def upt_rec[of 0] upt_rec[of 1] upt_rec[of "Suc 0"])
qed

section \<open>The success response\<close>

text \<open>
  Validation has succeeded, the middleware chain has run to its end and the handler has
  returned \<open>result\<close>. The route handler returns \<open>result\<close> itself when it is a response
  object; when it is a value other than \<open>undefined\<close>, the response with \<open>result\<close> as JSON
  body and status 201 when the method is \<^verbatim>\<open>POST\<close>, 200 for every other method.
\<close>

lemma success_response:
  assumes "validateInput this m req routeCtx = Inr inputBase"
    and "runMiddlewares (middlewares this) inputBase 0 Map.empty = (Inr cumulativeCtx, evs)"
    and "handler (with_ctx inputBase cumulativeCtx) = Inr result"
    and "result \<noteq> PlainValue JUndefined"
  shows "routeHandler this m handler req routeCtx =
     (Inr (case result of
             IsNextResponse response \<Rightarrow> response
           | PlainValue v \<Rightarrow> \<lparr>status = (if m = POST then 201 else 200), json_body = v\<rparr>),
      evs @ [HandlerCall (with_ctx inputBase cumulativeCtx)])"
  using assms
  by (simp add: routeHandler_def pipeline_def runHandler_def NextResponse_json_def
      split: HandlerResult.splits)

text \<open>
  C9. A \<^verbatim>\<open>DELETE\<close> whose handler completes and returns nothing (\<open>undefined\<close>), with a failure
  hook installed: \<^verbatim>\<open>NextResponse.json\<close> throws inside the outer \<^verbatim>\<open>try\<close>, the failure hook
  is called with that \<^verbatim>\<open>TypeError\<close> and the response is the generic 500, not a response with
  status 200.
\<close>

theorem handler_returning_nothing_answered_500:
  "return_nothing (with_ctx (example_base JUndefined example_req) no_ctx)
     = Inr (PlainValue JUndefined)
   \<and> routeHandler ((builder_with [])\<lparr>failureHandler := Some quiet_hook\<rparr>) DELETE return_nothing
       example_req example_routeCtx =
     (Inr \<lparr>status = 500,
           json_body = JObj [(''message'', JStr ''An internal server error occurred.''),
                             (''type'', JStr ''INTERNAL_SERVER_ERROR'')]\<rparr>,
      [HandlerCall (with_ctx (example_base JUndefined example_req) no_ctx),
       FailureHandlerCall example_req (js_error ''TypeError''),
       ConsoleError ''Unhandled API error:'' (js_error ''TypeError'')])"
  by (simp add: routeHandler_def pipeline_def validateInput_def validateBody_def validate_def
      builder_with_def example_req_def example_routeCtx_def runHandler_def return_nothing_def
      with_ctx_def example_base_def no_ctx_def fromEntries_def NextResponse_json_def onError_def
      js_error_def runFailureHandler_def quiet_hook_def internal_error_response_def)

section \<open>Classification of errors\<close>

text \<open>
  C6, the claim as stated fails: the handler raises a Typed Error Value that also carries a
  digest starting with \<open>NEXT_\<close>; the route handler raises it again instead of answering with
  its message, type and issues at its status code.
\<close>

theorem marked_typed_error_is_not_mapped:
  "instanceofApiError marked_unauthorized = Some unauthorized
   \<and> fst (pipeline (builder_with []) GET raise_marked_unauthorized example_req example_routeCtx)
       = Inl marked_unauthorized
   \<and> fst (routeHandler (builder_with []) GET raise_marked_unauthorized example_req example_routeCtx)
       = Inl marked_unauthorized
   \<and> fst (routeHandler (builder_with []) GET raise_marked_unauthorized example_req example_routeCtx)
       \<noteq> Inr \<lparr>status = 401,
               json_body = JObj [(''message'', JStr ''Not authenticated.''),
                                 (''type'', JStr ''UNAUTHORIZED''), (''issues'', JUndefined)]\<rparr>"
  by (simp add: routeHandler_def pipeline_def example_validateInput runHandler_def
      raise_marked_unauthorized_def marked_unauthorized_def onError_def startsWith_def
      builder_with_fields)

text \<open>
  C6, amended. An error reaches the top level when it is raised inside the outer \<^verbatim>\<open>try\<close>
  and not caught there: by the validation steps (the body step raising \<open>INVALID_BODY\<close> for
  whatever was raised inside it), by a middleware step, by the handler, or by the encoding of
  the handler's result. Of the errors that reach the top level and are not platform signals:
  a Typed Error Value whose status code is one that a response with a body can carry (200 to
  599, other than 204, 205 and 304) is answered with its message, type and issues at that
  status code; any error that is not a Typed Error Value is answered with the generic 500
  body, which does not depend on the error. The failure hook is called in a run exactly when
  the error that reached the top level is neither a platform signal nor a Typed Error Value
  and a hook is installed, and then once, with the request and that error.
\<close>

theorem error_classification:
  "(\<forall>error.
      validateInput this m req routeCtx = Inl error \<longrightarrow>
      pipeline this m handler req routeCtx = (Inl error, []))
   \<and> (\<forall>inputBase error evs.
      validateInput this m req routeCtx = Inr inputBase \<longrightarrow>
      runMiddlewares (middlewares this) inputBase 0 Map.empty = (Inl error, evs) \<longrightarrow>
      pipeline this m handler req routeCtx = (Inl error, evs))
   \<and> (\<forall>inputBase cumulativeCtx error evs.
      validateInput this m req routeCtx = Inr inputBase \<longrightarrow>
      runMiddlewares (middlewares this) inputBase 0 Map.empty = (Inr cumulativeCtx, evs) \<longrightarrow>
      handler (with_ctx inputBase cumulativeCtx) = Inl error \<longrightarrow>
      pipeline this m handler req routeCtx =
        (Inl error, evs @ [HandlerCall (with_ctx inputBase cumulativeCtx)]))
   \<and> (\<forall>inputBase cumulativeCtx result error evs.
      validateInput this m req routeCtx = Inr inputBase \<longrightarrow>
      runMiddlewares (middlewares this) inputBase 0 Map.empty = (Inr cumulativeCtx, evs) \<longrightarrow>
      handler (with_ctx inputBase cumulativeCtx) = Inr (PlainValue result) \<longrightarrow>
      NextResponse_json result (if m = POST then 201 else 200) = Inl error \<longrightarrow>
      pipeline this m handler req routeCtx =
        (Inl error, evs @ [HandlerCall (with_ctx inputBase cumulativeCtx)]))
   \<and> (\<forall>error evs apiError.
      pipeline this m handler req routeCtx = (Inl error, evs) \<longrightarrow>
      \<not> isNextJsInternalError error \<longrightarrow> instanceofApiError error = Some apiError \<longrightarrow>
      200 \<le> code apiError \<longrightarrow> code apiError \<le> 599 \<longrightarrow>
      code apiError \<notin> {204, 205, 304} \<longrightarrow>
      routeHandler this m handler req routeCtx =
        (Inr \<lparr>status = code apiError,
              json_body = JObj [(''message'', JStr (message apiError)),
                                (''type'', JStr (type apiError)),
                                (''issues'', issues_json (issues apiError))]\<rparr>, evs))
   \<and> (\<forall>error evs.
      pipeline this m handler req routeCtx = (Inl error, evs) \<longrightarrow>
      \<not> isNextJsInternalError error \<longrightarrow> instanceofApiError error = None \<longrightarrow>
      fst (routeHandler this m handler req routeCtx) =
        Inr \<lparr>status = 500,
             json_body = JObj [(''message'', JStr ''An internal server error occurred.''),
                               (''type'', JStr ''INTERNAL_SERVER_ERROR'')]\<rparr>)
   \<and> failureHandlerCalls (snd (routeHandler this m handler req routeCtx)) =
       (case pipeline this m handler req routeCtx of
          (Inr response, evs) \<Rightarrow> []
        | (Inl error, evs) \<Rightarrow>
            if \<not> isNextJsInternalError error \<and> instanceofApiError error = None
               \<and> failureHandler this \<noteq> None
            then [(req, error)] else [])"
proof (intro conjI allI impI)
  fix error
  assume "validateInput this m req routeCtx = Inl error"
  then show "pipeline this m handler req routeCtx = (Inl error, [])"
    by (rule pipeline_validation_raises)
next
  fix inputBase error evs
  assume "validateInput this m req routeCtx = Inr inputBase"
    "runMiddlewares (middlewares this) inputBase 0 Map.empty = (Inl error, evs)"
  then show "pipeline this m handler req routeCtx = (Inl error, evs)"
    by (simp add: pipeline_def)
next
  fix inputBase cumulativeCtx error evs
  assume "validateInput this m req routeCtx = Inr inputBase"
    "runMiddlewares (middlewares this) inputBase 0 Map.empty = (Inr cumulativeCtx, evs)"
    "handler (with_ctx inputBase cumulativeCtx) = Inl error"
  then show "pipeline this m handler req routeCtx =
        (Inl error, evs @ [HandlerCall (with_ctx inputBase cumulativeCtx)])"
    by (simp add: pipeline_def runHandler_def)
next
  fix inputBase cumulativeCtx result error evs
  assume "validateInput this m req routeCtx = Inr inputBase"
    "runMiddlewares (middlewares this) inputBase 0 Map.empty = (Inr cumulativeCtx, evs)"
    "handler (with_ctx inputBase cumulativeCtx) = Inr (PlainValue result)"
    "NextResponse_json result (if m = POST then 201 else 200) = Inl error"
  then show "pipeline this m handler req routeCtx =
        (Inl error, evs @ [HandlerCall (with_ctx inputBase cumulativeCtx)])"
    by (simp add: pipeline_def runHandler_def)
next
  fix error evs apiError
  assume "pipeline this m handler req routeCtx = (Inl error, evs)"
    "\<not> isNextJsInternalError error" "instanceofApiError error = Some apiError"
    and c: "200 \<le> code apiError" "code apiError \<le> 599" "code apiError \<notin> {204, 205, 304}"
  from routeHandler_ApiError[OF this(1-3)] c
  show "routeHandler this m handler req routeCtx =
        (Inr \<lparr>status = code apiError,
              json_body = JObj [(''message'', JStr (message apiError)),
                                (''type'', JStr (type apiError)),
                                (''issues'', issues_json (issues apiError))]\<rparr>, evs)"
    by (simp add: NextResponse_json_def error_body_def)
next
  fix error evs
  assume "pipeline this m handler req routeCtx = (Inl error, evs)"
    "\<not> isNextJsInternalError error" "instanceofApiError error = None"
  from routeHandler_unclassified[OF this]
  show "fst (routeHandler this m handler req routeCtx) =
        Inr \<lparr>status = 500,
             json_body = JObj [(''message'', JStr ''An internal server error occurred.''),
                               (''type'', JStr ''INTERNAL_SERVER_ERROR'')]\<rparr>"
    by (simp add: internal_error_response_built)
next
  obtain r evs where p: "pipeline this m handler req routeCtx = (r, evs)"
    by (cases "pipeline this m handler req routeCtx")
  from pipeline_no_hook[of this m handler req routeCtx] p
  have quiet: "failureHandlerCalls evs = []" by simp
  show "failureHandlerCalls (snd (routeHandler this m handler req routeCtx)) =
       (case pipeline this m handler req routeCtx of
          (Inr response, evs) \<Rightarrow> []
        | (Inl error, evs) \<Rightarrow>
            if \<not> isNextJsInternalError error \<and> instanceofApiError error = None
               \<and> failureHandler this \<noteq> None
            then [(req, error)] else [])"
  proof (cases r)
    case (Inr response)
    with p quiet show ?thesis by (simp add: routeHandler_def)
  next
    case (Inl error)
    with p quiet show ?thesis
      by (auto simp add: routeHandler_def onError_def failureHandlerCalls_append
          failureHandlerCalls_run split: option.splits)
  qed
qed

theorem error_classification_witness:
  "routeHandler ((builder_with [mw_user, mw_deny])\<lparr>failureHandler := Some quiet_hook\<rparr>) GET
       echo_role example_req example_routeCtx =
     (Inr \<lparr>status = 401,
           json_body = JObj [(''message'', JStr ''Not authenticated.''),
                             (''type'', JStr ''UNAUTHORIZED''), (''issues'', JUndefined)]\<rparr>,
      [MiddlewareCall 0 (with_ctx (example_base JUndefined example_req) Map.empty),
       MiddlewareCall 1 (with_ctx (example_base JUndefined example_req)
                           [''user'' \<mapsto> JStr ''ann'', ''role'' \<mapsto> JStr ''guest''])])
   \<and> fst (routeHandler ((builder_with [])\<lparr>failureHandler := Some quiet_hook\<rparr>) GET
       raise_database_down example_req example_routeCtx) =
     Inr \<lparr>status = 500,
          json_body = JObj [(''message'', JStr ''An internal server error occurred.''),
                            (''type'', JStr ''INTERNAL_SERVER_ERROR'')]\<rparr>
   \<and> failureHandlerCalls (snd (routeHandler ((builder_with [])\<lparr>failureHandler := Some quiet_hook\<rparr>)
       GET raise_database_down example_req example_routeCtx)) = [(example_req, database_down)]
   \<and> failureHandlerCalls (snd (routeHandler
       ((builder_with [mw_user, mw_deny])\<lparr>failureHandler := Some quiet_hook\<rparr>) GET
       echo_role example_req example_routeCtx)) = []
   \<and> failureHandlerCalls (snd (routeHandler ((builder_with [])\<lparr>failureHandler := Some quiet_hook\<rparr>)
       GET return_nothing example_req example_routeCtx)) = [(example_req, js_error ''TypeError'')]"
proof -
  let ?a = "(builder_with [mw_user, mw_deny])\<lparr>failureHandler := Some quiet_hook\<rparr>"
  let ?b = "(builder_with [])\<lparr>failureHandler := Some quiet_hook\<rparr>"
  let ?base = "example_base JUndefined example_req"
  have va: "validateInput ?a GET example_req example_routeCtx = Inr ?base"
    and vb: "validateInput ?b GET example_req example_routeCtx = Inr ?base"
    by (simp_all add: validateInput_def builder_with_def example_req_def example_routeCtx_def
        example_base_def validate_def validateBody_def fromEntries_def)
  have ra: "runMiddlewares (middlewares ?a) ?base 0 Map.empty =
      (Inl (throw_ApiError unauthorized),
       [MiddlewareCall 0 (with_ctx ?base Map.empty),
        MiddlewareCall 1 (with_ctx ?base [''user'' \<mapsto> JStr ''ann'', ''role'' \<mapsto> JStr ''guest''])])"
    by (simp add: builder_with_def mw_user_def mw_deny_def with_ctx_def)
  have rb: "runMiddlewares (middlewares ?b) ?base 0 Map.empty = (Inr Map.empty, [])"
    by (simp add: builder_with_def)
  have hb: "raise_database_down (with_ctx ?base Map.empty) = Inl database_down"
    by (simp add: raise_database_down_def)
  have hc: "return_nothing (with_ctx ?base Map.empty) = Inr (PlainValue JUndefined)"
    by (simp add: return_nothing_def)
  have ec: "NextResponse_json JUndefined (if GET = POST then 201 else 200)
      = Inl (js_error ''TypeError'')"
    by (simp add: NextResponse_json_def)
  have na: "\<not> isNextJsInternalError (throw_ApiError unauthorized)"
    by (rule fresh_ApiError_is_no_signal)
  have ia: "instanceofApiError (throw_ApiError unauthorized) = Some unauthorized"
    by (simp add: throw_ApiError_def)
  have ca: "200 \<le> code unauthorized" "code unauthorized \<le> 599"
    "code unauthorized \<notin> {204, 205, 304}"
    by (simp_all add: unauthorized_def new_ApiError_def)
  have nb: "\<not> isNextJsInternalError database_down"
    and ib: "instanceofApiError database_down = None"
    by (simp_all add: database_down_def)
  note A = error_classification[of ?a GET example_req example_routeCtx echo_role]
  note B = error_classification[of ?b GET example_req example_routeCtx raise_database_down]
  note C = error_classification[of ?b GET example_req example_routeCtx return_nothing]
  note A' = A[THEN conjunct2, THEN conjunct2, THEN conjunct2, THEN conjunct2]
  note B' = B[THEN conjunct2, THEN conjunct2, THEN conjunct2, THEN conjunct2]
  note C' = C[THEN conjunct2, THEN conjunct2, THEN conjunct2, THEN conjunct2]
  note pa = A[THEN conjunct2, THEN conjunct1, rule_format, OF va ra]
  have pb: "pipeline ?b GET raise_database_down example_req example_routeCtx =
      (Inl database_down, [HandlerCall (with_ctx ?base Map.empty)])"
    using B[THEN conjunct2, THEN conjunct2, THEN conjunct1, rule_format, OF vb rb hb] by simp
  have pc: "pipeline ?b GET return_nothing example_req example_routeCtx =
      (Inl (js_error ''TypeError''), [HandlerCall (with_ctx ?base Map.empty)])"
    using C[THEN conjunct2, THEN conjunct2, THEN conjunct2, THEN conjunct1, rule_format,
        OF vb rb hc ec] by simp
  from A'[THEN conjunct1, rule_format, OF pa na ia ca]
  have r1: "routeHandler ?a GET echo_role example_req example_routeCtx =
     (Inr \<lparr>status = 401,
           json_body = JObj [(''message'', JStr ''Not authenticated.''),
                             (''type'', JStr ''UNAUTHORIZED''), (''issues'', JUndefined)]\<rparr>,
      [MiddlewareCall 0 (with_ctx ?base Map.empty),
       MiddlewareCall 1 (with_ctx ?base [''user'' \<mapsto> JStr ''ann'', ''role'' \<mapsto> JStr ''guest''])])"
    by (simp add: unauthorized_def new_ApiError_def issues_json_def)
  from A'[THEN conjunct2, THEN conjunct2]
  have r2: "failureHandlerCalls (snd (routeHandler ?a GET echo_role example_req example_routeCtx)) = []"
    by (simp add: pa ia)
  note r3 = B'[THEN conjunct2, THEN conjunct1, rule_format, OF pb nb ib]
  from B'[THEN conjunct2, THEN conjunct2]
  have r4: "failureHandlerCalls (snd (routeHandler ?b GET raise_database_down example_req
      example_routeCtx)) = [(example_req, database_down)]"
    by (simp add: pb nb ib)
  from C'[THEN conjunct2, THEN conjunct2]
  have r5: "failureHandlerCalls (snd (routeHandler ?b GET return_nothing example_req
      example_routeCtx)) = [(example_req, js_error ''TypeError'')]"
    by (simp add: pc js_error_unclassified)
  from r1 r2 r3 r4 r5 show ?thesis by simp
qed

text \<open>
  A Typed Error Value whose status code no response can carry: \<^verbatim>\<open>NextResponse.json\<close> throws
  in the \<^verbatim>\<open>catch\<close>, and the route handler raises that error without calling the failure hook.
\<close>

lemma typed_error_with_unusable_status:
  "routeHandler ((builder_with [])\<lparr>failureHandler := Some quiet_hook\<rparr>) GET raise_teapot
       example_req example_routeCtx =
     (Inl (js_error ''RangeError''),
      [HandlerCall (with_ctx (example_base JUndefined example_req) no_ctx)])"
  by (simp add: routeHandler_def pipeline_def validateInput_def validateBody_def validate_def
      builder_with_def example_req_def example_routeCtx_def runHandler_def raise_teapot_def
      with_ctx_def example_base_def no_ctx_def fromEntries_def NextResponse_json_def onError_def
      throw_ApiError_def new_ApiError_def error_body_def)

text \<open>
  C8. An error that is neither a platform signal nor a Typed Error Value has reached the top
  level, a failure hook is installed and the hook itself raises. The route handler returns
  (it does not raise) the generic 500 response, having called the hook once and written both
  errors to the console; the outcome is the one of the same run with any hook that succeeds.
\<close>

theorem raising_failure_hook_is_swallowed:
  assumes "pipeline this m handler req routeCtx = (Inl error, evs)"
    and "\<not> isNextJsInternalError error"
    and "instanceofApiError error = None"
    and "failureHandler this = Some hook"
    and "hook req error = Inl loggingError"
  shows "routeHandler this m handler req routeCtx =
           (Inr \<lparr>status = 500,
                 json_body = JObj [(''message'', JStr ''An internal server error occurred.''),
                                   (''type'', JStr ''INTERNAL_SERVER_ERROR'')]\<rparr>,
            evs @ [FailureHandlerCall req error,
                   ConsoleError ''Error within .failed() handler:'' loggingError,
                   ConsoleError ''Unhandled API error:'' error])
       \<and> (\<forall>hook'. hook' req error = Inr () \<longrightarrow>
            fst (routeHandler (this\<lparr>failureHandler := Some hook'\<rparr>) m handler req routeCtx)
              = fst (routeHandler this m handler req routeCtx))"
proof (intro conjI allI impI)
  from routeHandler_unclassified[OF assms(1-3)] assms(4,5)
  show "routeHandler this m handler req routeCtx =
           (Inr \<lparr>status = 500,
                 json_body = JObj [(''message'', JStr ''An internal server error occurred.''),
                                   (''type'', JStr ''INTERNAL_SERVER_ERROR'')]\<rparr>,
            evs @ [FailureHandlerCall req error,
                   ConsoleError ''Error within .failed() handler:'' loggingError,
                   ConsoleError ''Unhandled API error:'' error])"
    by (simp add: runFailureHandler_def internal_error_response_def NextResponse_json_def)
next
  fix hook' :: FailureHandler
  assume "hook' req error = Inr ()"
  have "pipeline (this\<lparr>failureHandler := Some hook'\<rparr>) m handler req routeCtx = (Inl error, evs)"
    using assms(1) by (simp add: pipeline_ignores_failureHandler)
  from routeHandler_unclassified[OF this assms(2,3)] routeHandler_unclassified[OF assms(1-3)]
  show "fst (routeHandler (this\<lparr>failureHandler := Some hook'\<rparr>) m handler req routeCtx)
              = fst (routeHandler this m handler req routeCtx)"
    by simp
qed

theorem raising_failure_hook_witness:
  "routeHandler ((builder_with [])\<lparr>failureHandler := Some failing_hook\<rparr>) GET raise_database_down
       example_req example_routeCtx =
     (Inr \<lparr>status = 500,
           json_body = JObj [(''message'', JStr ''An internal server error occurred.''),
                             (''type'', JStr ''INTERNAL_SERVER_ERROR'')]\<rparr>,
      [HandlerCall (with_ctx (example_base JUndefined example_req) Map.empty),
       FailureHandlerCall example_req database_down,
       ConsoleError ''Error within .failed() handler:'' (ThrownPrimitive (JStr ''logger offline'')),
       ConsoleError ''Unhandled API error:'' database_down])
   \<and> fst (routeHandler ((builder_with [])\<lparr>failureHandler := Some quiet_hook\<rparr>) GET
            raise_database_down example_req example_routeCtx) =
     Inr \<lparr>status = 500,
          json_body = JObj [(''message'', JStr ''An internal server error occurred.''),
                            (''type'', JStr ''INTERNAL_SERVER_ERROR'')]\<rparr>"
proof -
  let ?b = "(builder_with [])\<lparr>failureHandler := Some failing_hook\<rparr>"
  let ?base = "example_base JUndefined example_req"
  have v: "validateInput ?b GET example_req example_routeCtx = Inr ?base"
    by (simp add: validateInput_def builder_with_def example_req_def example_routeCtx_def
        example_base_def validate_def validateBody_def fromEntries_def)
  have p: "pipeline ?b GET raise_database_down example_req example_routeCtx =
      (Inl database_down, [HandlerCall (with_ctx ?base Map.empty)])"
    using pipeline_after_validation[OF v, of raise_database_down]
    by (simp add: builder_with_def runHandler_def raise_database_down_def)
  have n: "\<not> isNextJsInternalError database_down"
    and i: "instanceofApiError database_down = None"
    by (simp_all add: database_down_def)
  have f: "failureHandler ?b = Some failing_hook" by simp
  have h: "failing_hook example_req database_down = Inl (ThrownPrimitive (JStr ''logger offline''))"
    by (simp add: failing_hook_def)
  have q: "quiet_hook example_req database_down = Inr ()" by (simp add: quiet_hook_def)
  note W = raising_failure_hook_is_swallowed[OF p n i f h]
  from W[THEN conjunct2] have "quiet_hook example_req database_down = Inr () \<longrightarrow>
      fst (routeHandler (?b\<lparr>failureHandler := Some quiet_hook\<rparr>) GET raise_database_down
             example_req example_routeCtx)
        = fst (routeHandler ?b GET raise_database_down example_req example_routeCtx)"
    by (rule spec)
  with W[THEN conjunct1] q show ?thesis by simp
qed

section \<open>Platform signals\<close>

text \<open>
  C10. An error that reaches the top level and is an object whose \<open>digest\<close> is a string
  starting with \<open>NEXT_\<close> is raised again by the route handler as it is, whether or not it
  is an instance of \<open>ApiError\<close>; the route handler then returns no response, so the error
  is not answered with its message, type and issues.
\<close>

theorem platform_signal_test_comes_first:
  assumes "pipeline this m handler req routeCtx = (Inl (ThrownObject ps c), evs)"
    and "map_of ps ''digest'' = Some (JStr digest)"
    and "startsWith digest ''NEXT_''"
  shows "routeHandler this m handler req routeCtx = (Inl (ThrownObject ps c), evs)
       \<and> (\<forall>response. fst (routeHandler this m handler req routeCtx) \<noteq> Inr response)
       \<and> onError (failureHandler this) req (ThrownObject ps c) = (Inl (ThrownObject ps c), [])"
proof -
  from assms(2,3) have s: "isNextJsInternalError (ThrownObject ps c)" by simp
  from routeHandler_rethrows[OF assms(1) s] s show ?thesis by (simp add: onError_def)
qed

theorem platform_signal_witness:
  "routeHandler (builder_with []) GET raise_marked_unauthorized example_req example_routeCtx =
     (Inl (ThrownObject [(''digest'', JStr ''NEXT_REDIRECT;/login'')] (Some unauthorized)),
      [HandlerCall (with_ctx (example_base JUndefined example_req) Map.empty)])"
proof -
  have p: "pipeline (builder_with []) GET raise_marked_unauthorized example_req example_routeCtx =
      (Inl (ThrownObject [(''digest'', JStr ''NEXT_REDIRECT;/login'')] (Some unauthorized)),
       [HandlerCall (with_ctx (example_base JUndefined example_req) Map.empty)])"
    using pipeline_after_validation[OF example_validateInput[of "[]"],
        of raise_marked_unauthorized]
    by (simp add: builder_with_fields runHandler_def raise_marked_unauthorized_def
        marked_unauthorized_def)
  have d: "map_of [(''digest'', JStr ''NEXT_REDIRECT;/login'')] ''digest''
      = Some (JStr ''NEXT_REDIRECT;/login'')" by simp
  have s: "startsWith ''NEXT_REDIRECT;/login'' ''NEXT_''" by (simp add: startsWith_def)
  from platform_signal_test_comes_first[OF p d s] show ?thesis by simp
qed

text \<open>
  C7. A body schema whose callback raises the not-found signal, on a \<^verbatim>\<open>POST\<close> whose payload
  parses: the signal is a platform signal, and the response is 400 \<open>INVALID_BODY\<close>; the same
  schema installed as context schema has its signal raised again by the route handler.
\<close>

theorem signal_from_body_schema_is_swallowed:
  "isNextJsInternalError not_found_signal
   \<and> validate (Some schema_calling_notFound) (JObj [(''title'', JStr ''hello'')]) = Inl not_found_signal
   \<and> routeHandler ((builder_with [])\<lparr>bodySchema := Some schema_calling_notFound\<rparr>) POST echo_input
       example_req example_routeCtx =
     (Inr \<lparr>status = 400,
           json_body = JObj [(''message'', JStr ''Invalid JSON body provided.''),
                             (''type'', JStr ''INVALID_BODY''), (''issues'', JUndefined)]\<rparr>, [])
   \<and> routeHandler ((builder_with [])\<lparr>contextSchema := Some schema_calling_notFound\<rparr>) POST
       echo_input example_req example_routeCtx = (Inl not_found_signal, [])"
  by (simp add: routeHandler_def pipeline_def validateInput_def validateBody_def validate_def
      builder_with_def schema_calling_notFound_def not_found_signal_def example_req_def
      example_routeCtx_def onError_def startsWith_def
      throw_ApiError_def new_ApiError_def error_body_def issues_json_def NextResponse_json_def
      fromEntries_def)

end
